theory Spec2Isabelle
  imports Complex_Main
begin

section \<open>Values: parsed JSON and Python dictionaries\<close>

text \<open>
  The scripts handle the bodies returned by \<^verbatim>\<open>response.json()\<close>: nested Python values made
  of \<^verbatim>\<open>None\<close>, booleans, numbers, strings, lists and dictionaries. A dictionary keeps its
  keys in insertion order, so it is an association list.
\<close>

datatype json =
    JNull
  | JBool bool
  | JInt int
  | JFloat rat
  | JStr string
  | JArr "json list"
  | JObj "(string \<times> json) list"

type_synonym dict = "(string \<times> json) list"

text \<open>The exceptions the modelled code can raise by itself.\<close>

datatype error = AttributeError | TypeError

text \<open>Python truthiness, as tested by \<^verbatim>\<open>if not x\<close>.\<close>

fun truthy :: "json \<Rightarrow> bool" where
  "truthy JNull = False"
| "truthy (JBool b) = b"
| "truthy (JInt i) = (i \<noteq> 0)"
| "truthy (JFloat r) = (r \<noteq> 0)"
| "truthy (JStr s) = (s \<noteq> [])"
| "truthy (JArr xs) = (xs \<noteq> [])"
| "truthy (JObj kvs) = (kvs \<noteq> [])"

text \<open>\<^verbatim>\<open>d.get(k)\<close> and \<^verbatim>\<open>d.get(k, default)\<close> on a dictionary.\<close>

definition dict_get :: "dict \<Rightarrow> string \<Rightarrow> json" where
  "dict_get d k = (case map_of d k of None \<Rightarrow> JNull | Some v \<Rightarrow> v)"

definition dict_get_default :: "dict \<Rightarrow> string \<Rightarrow> json \<Rightarrow> json" where
  "dict_get_default d k dflt = (case map_of d k of None \<Rightarrow> dflt | Some v \<Rightarrow> v)"

text \<open>
  \<^verbatim>\<open>x.get(k)\<close> on an arbitrary value: only a dictionary has the method, anything else
  raises \<^verbatim>\<open>AttributeError\<close>.
\<close>

fun get_attr :: "json \<Rightarrow> string \<Rightarrow> error + json" where
  "get_attr (JObj d) k = Inr (dict_get d k)"
| "get_attr _ k = Inl AttributeError"

fun get_attr_default :: "json \<Rightarrow> string \<Rightarrow> json \<Rightarrow> error + json" where
  "get_attr_default (JObj d) k dflt = Inr (dict_get_default d k dflt)"
| "get_attr_default _ k dflt = Inl AttributeError"

text \<open>
  \<^verbatim>\<open>d[k] = v\<close>: an existing key keeps its position, a new key goes to the end.
  \<^verbatim>\<open>d.update(other)\<close> assigns the entries of \<^verbatim>\<open>other\<close> in order.
\<close>

fun dict_set :: "dict \<Rightarrow> string \<Rightarrow> json \<Rightarrow> dict" where
  "dict_set [] k v = [(k, v)]"
| "dict_set ((k', v') # d) k v = (if k' = k then (k, v) # d else (k', v') # dict_set d k v)"

fun dict_update :: "dict \<Rightarrow> dict \<Rightarrow> dict" where
  "dict_update d [] = d"
| "dict_update d ((k, v) # other) = dict_update (dict_set d k v) other"

text \<open>
  Iterating a value, as \<^verbatim>\<open>list.extend\<close> and \<^verbatim>\<open>for x in v\<close> do: a list yields its
  elements, a string its characters, a dictionary its keys; the other values are not
  iterable.
\<close>

fun iterate :: "json \<Rightarrow> error + json list" where
  "iterate (JArr xs) = Inr xs"
| "iterate (JStr s) = Inr (map (\<lambda>c. JStr [c]) s)"
| "iterate (JObj d) = Inr (map (\<lambda>kv. JStr (fst kv)) d)"
| "iterate _ = Inl TypeError"

section \<open>Effects\<close>

text \<open>
  What a call does besides returning is recorded as a trace, oldest event first: each
  \<^verbatim>\<open>requests.get\<close>, each \<^verbatim>\<open>time.sleep\<close> (the configured inter-request delay apart from
  the computed waits, in seconds), and each warning or error written to the log.
  Informational log lines are not part of the trace.
\<close>

datatype level = Warning | Error

datatype event = Request | RequestDelay | Sleep nat | Log level

definition calls :: "event list \<Rightarrow> nat" where
  "calls tr = length (filter (\<lambda>e. e = Request) tr)"

definition emit :: "event list \<Rightarrow> event list \<times> 'a \<Rightarrow> event list \<times> 'a" where
  "emit evs r = (evs @ fst r, snd r)"

section \<open>HTTP client wrappers\<close>

text \<open>
  The outcome of one \<^verbatim>\<open>requests.get\<close> followed by \<^verbatim>\<open>raise_for_status\<close> and
  \<^verbatim>\<open>response.json()\<close>: a parsed body, \<^verbatim>\<open>requests.exceptions.Timeout\<close>, \<^verbatim>\<open>HTTPError\<close>
  with its status code, \<^verbatim>\<open>ConnectionError\<close>, another \<^verbatim>\<open>RequestException\<close>, or the
  \<^verbatim>\<open>requests.exceptions.JSONDecodeError\<close> that \<^verbatim>\<open>response.json()\<close> raises on a body it
  cannot parse. The last one is both a \<^verbatim>\<open>RequestException\<close> and a
  \<^verbatim>\<open>json.JSONDecodeError\<close>, so the first \<^verbatim>\<open>except\<close> clause naming either class
  receives it, after the inter-request delay has been slept.
  The network is a function giving the outcome of the k-th attempt of a request.
\<close>

datatype outcome =
    Success json
  | Timeout
  | HTTPError nat
  | ConnectionError
  | RequestException
  | JSONDecodeError

subsection \<open>\<^verbatim>\<open>ingest_openaq_data.py\<close>: \<^verbatim>\<open>OpenAQIngester.make_request\<close>\<close>

fun make_request_once :: "(nat \<Rightarrow> outcome) \<Rightarrow> event list \<times> json option" where
  "make_request_once get =
     (case get 0 of
        Success body \<Rightarrow> ([Request, RequestDelay], Some body)
      | JSONDecodeError \<Rightarrow> ([Request, RequestDelay, Log Error], None)
      | _ \<Rightarrow> ([Request, Log Error], None))"

subsection \<open>\<^verbatim>\<open>run_full_ingestion.py\<close>: \<^verbatim>\<open>FullScaleOpenAQIngester.make_request\<close>\<close>

text \<open>
  \<^verbatim>\<open>for attempt in range(retries + 1)\<close>. A handler that neither continues, breaks nor
  returns falls out of the \<^verbatim>\<open>try\<close> statement into the next iteration of the loop.
  The clause \<^verbatim>\<open>except json.JSONDecodeError\<close> with its \<^verbatim>\<open>break\<close> stands after
  \<^verbatim>\<open>except requests.exceptions.RequestException\<close>: an unparseable body is received by
  the earlier clause and retried like a connection failure.
\<close>

function make_request_from :: "(nat \<Rightarrow> outcome) \<Rightarrow> nat \<Rightarrow> nat \<Rightarrow> event list \<times> json option" where
  "make_request_from get retries attempt =
     (if retries < attempt then ([], None)
      else case get attempt of
        Success body \<Rightarrow> ([Request, RequestDelay], Some body)
      | Timeout \<Rightarrow>
          (if attempt < retries
           then emit [Request, Log Warning, Sleep (2 ^ attempt)]
                  (make_request_from get retries (Suc attempt))
           else emit [Request, Log Error] (make_request_from get retries (Suc attempt)))
      | HTTPError status \<Rightarrow>
          (if status = 429 \<and> attempt < retries
           then emit [Request, Log Warning, Sleep (60 * (attempt + 1))]
                  (make_request_from get retries (Suc attempt))
           else if status \<noteq> 429 \<and> 500 \<le> status \<and> attempt < retries
           then emit [Request, Log Warning, Sleep (5 * (attempt + 1))]
                  (make_request_from get retries (Suc attempt))
           else emit [Request, Log Error] (make_request_from get retries (Suc attempt)))
      | JSONDecodeError \<Rightarrow>
          (if attempt < retries
           then emit [Request, RequestDelay, Log Warning, Sleep (2 ^ attempt)]
                  (make_request_from get retries (Suc attempt))
           else emit [Request, RequestDelay, Log Error]
                  (make_request_from get retries (Suc attempt)))
      | _ \<Rightarrow>
          (if attempt < retries
           then emit [Request, Log Warning, Sleep (2 ^ attempt)]
                  (make_request_from get retries (Suc attempt))
           else emit [Request, Log Error] (make_request_from get retries (Suc attempt))))"
  by pat_completeness auto
termination
  by (relation "measure (\<lambda>(get, retries, attempt). Suc retries - attempt)") auto

declare make_request_from.simps [simp del]

definition make_request :: "(nat \<Rightarrow> outcome) \<Rightarrow> nat \<Rightarrow> event list \<times> json option" where
  "make_request get retries = make_request_from get retries 0"

subsection \<open>\<^verbatim>\<open>nepal_ingestion.py\<close>: \<^verbatim>\<open>NepalOpenAQIngester.make_request_with_retry\<close>\<close>

text \<open>
  \<^verbatim>\<open>for attempt in range(self.max_retries)\<close>. No handler leaves the loop; each one is
  followed by the wait before the next attempt. The counter
  \<^verbatim>\<open>progress['errors_encountered']\<close> is passed through and returned.
\<close>

definition wait_before_retry :: "nat \<Rightarrow> nat \<Rightarrow> event list" where
  "wait_before_retry max_retries attempt =
     (if attempt < max_retries - 1 then [Sleep ((attempt + 1) * 2)] else [])"

function make_request_with_retry_from ::
    "(nat \<Rightarrow> outcome) \<Rightarrow> nat \<Rightarrow> nat \<Rightarrow> nat \<Rightarrow> event list \<times> nat \<times> json option" where
  "make_request_with_retry_from get max_retries errors attempt =
     (if max_retries \<le> attempt then ([Log Error], errors, None)
      else case get attempt of
        Success body \<Rightarrow> ([Request, RequestDelay], errors, Some body)
      | Timeout \<Rightarrow>
          emit ([Request, Log Warning] @ wait_before_retry max_retries attempt)
            (make_request_with_retry_from get max_retries (errors + 1) (Suc attempt))
      | HTTPError status \<Rightarrow>
          (if status = 429
           then emit ([Request, Log Warning, Sleep 60] @ wait_before_retry max_retries attempt)
                  (make_request_with_retry_from get max_retries errors (Suc attempt))
           else emit ([Request, Log Error] @ wait_before_retry max_retries attempt)
                  (make_request_with_retry_from get max_retries (errors + 1) (Suc attempt)))
      | ConnectionError \<Rightarrow>
          emit ([Request, Log Warning, Sleep 5] @ wait_before_retry max_retries attempt)
            (make_request_with_retry_from get max_retries (errors + 1) (Suc attempt))
      | RequestException \<Rightarrow>
          emit ([Request, Log Error] @ wait_before_retry max_retries attempt)
            (make_request_with_retry_from get max_retries (errors + 1) (Suc attempt))
      | JSONDecodeError \<Rightarrow>
          emit ([Request, RequestDelay, Log Error] @ wait_before_retry max_retries attempt)
            (make_request_with_retry_from get max_retries (errors + 1) (Suc attempt)))"
  by pat_completeness auto
termination
  by (relation "measure (\<lambda>(get, max_retries, errors, attempt). max_retries - attempt)") auto

declare make_request_with_retry_from.simps [simp del]

definition make_request_with_retry ::
    "(nat \<Rightarrow> outcome) \<Rightarrow> nat \<Rightarrow> nat \<Rightarrow> event list \<times> nat \<times> json option" where
  "make_request_with_retry get max_retries errors =
     make_request_with_retry_from get max_retries errors 0"

section \<open>Flatteners\<close>

text \<open>Sequencing of computations that may raise, and a loop over a list that stops at the
  first exception.\<close>

definition and_then :: "error + 'a \<Rightarrow> ('a \<Rightarrow> error + 'b) \<Rightarrow> error + 'b" where
  "and_then r f = (case r of Inl e \<Rightarrow> Inl e | Inr x \<Rightarrow> f x)"

fun traverse :: "('a \<Rightarrow> error + 'b) \<Rightarrow> 'a list \<Rightarrow> error + 'b list" where
  "traverse f [] = Inr []"
| "traverse f (x # xs) =
     and_then (f x) (\<lambda>y. and_then (traverse f xs) (\<lambda>ys. Inr (y # ys)))"

text \<open>\<^verbatim>\<open>d.get(k1, {}).get(k2)\<close>: the default only replaces a missing key.\<close>

definition nested_get :: "dict \<Rightarrow> string \<Rightarrow> string \<Rightarrow> error + json" where
  "nested_get d k1 k2 = get_attr (dict_get_default d k1 (JObj [])) k2"

subsection \<open>Sensors out of locations\<close>

text \<open>
  \<^verbatim>\<open>extract_sensors_from_locations\<close> of \<^verbatim>\<open>ingest_openaq_data.py\<close>: one new dictionary
  for each sensor of each location, carrying the location's context.
\<close>

definition sensor_info_of :: "json \<Rightarrow> json \<Rightarrow> error + json" where
  "sensor_info_of location sensor =
     and_then (get_attr sensor ''id'') (\<lambda>sensor_id.
     and_then (get_attr sensor ''name'') (\<lambda>sensor_name.
     and_then (get_attr_default sensor ''parameter'' (JObj [])) (\<lambda>parameter.
     and_then (get_attr location ''id'') (\<lambda>location_id.
     and_then (get_attr location ''name'') (\<lambda>location_name.
     and_then (get_attr location ''locality'') (\<lambda>locality.
     and_then (get_attr_default location ''country'' (JObj [])) (\<lambda>country.
     and_then (get_attr_default location ''coordinates'' (JObj [])) (\<lambda>coordinates.
     and_then (get_attr location ''timezone'') (\<lambda>tz.
     and_then (get_attr_default location ''owner'' (JObj [])) (\<lambda>owner.
     and_then (get_attr_default location ''provider'' (JObj [])) (\<lambda>provider.
       Inr (JObj [(''sensor_id'', sensor_id), (''sensor_name'', sensor_name),
                  (''parameter'', parameter), (''location_id'', location_id),
                  (''location_name'', location_name), (''location_locality'', locality),
                  (''country'', country), (''coordinates'', coordinates),
                  (''timezone'', tz), (''owner'', owner),
                  (''provider'', provider)]))))))))))))"

definition sensors_of_location :: "(json \<Rightarrow> json \<Rightarrow> error + json) \<Rightarrow> json \<Rightarrow> error + json list" where
  "sensors_of_location info location =
     and_then (get_attr_default location ''sensors'' (JArr [])) (\<lambda>location_sensors.
     and_then (iterate location_sensors) (\<lambda>sensors.
       traverse (info location) sensors))"


text \<open>
  The version of \<^verbatim>\<open>run_full_ingestion.py\<close> copies more of the location. The counter
  \<^verbatim>\<open>stats['total_sensors']\<close> it increments is updated by the caller in this model.
\<close>

definition sensor_info_full_of :: "json \<Rightarrow> json \<Rightarrow> error + json" where
  "sensor_info_full_of location sensor =
     and_then (get_attr sensor ''id'') (\<lambda>sensor_id.
     and_then (get_attr sensor ''name'') (\<lambda>sensor_name.
     and_then (get_attr_default sensor ''parameter'' (JObj [])) (\<lambda>parameter.
     and_then (get_attr location ''id'') (\<lambda>location_id.
     and_then (get_attr location ''name'') (\<lambda>location_name.
     and_then (get_attr location ''locality'') (\<lambda>locality.
     and_then (get_attr location ''timezone'') (\<lambda>tz.
     and_then (get_attr_default location ''country'' (JObj [])) (\<lambda>country.
     and_then (get_attr_default location ''coordinates'' (JObj [])) (\<lambda>coordinates.
     and_then (get_attr_default location ''bounds'' (JArr [])) (\<lambda>bounds.
     and_then (get_attr_default location ''owner'' (JObj [])) (\<lambda>owner.
     and_then (get_attr_default location ''provider'' (JObj [])) (\<lambda>provider.
     and_then (get_attr_default location ''instruments'' (JArr [])) (\<lambda>instruments.
     and_then (get_attr_default location ''licenses'' (JArr [])) (\<lambda>licenses.
     and_then (get_attr location ''datetimeFirst'') (\<lambda>datetime_first.
     and_then (get_attr location ''datetimeLast'') (\<lambda>datetime_last.
     and_then (get_attr_default location ''isMobile'' (JBool False)) (\<lambda>is_mobile.
     and_then (get_attr_default location ''isMonitor'' (JBool False)) (\<lambda>is_monitor.
       Inr (JObj [(''sensor_id'', sensor_id), (''sensor_name'', sensor_name),
                  (''parameter'', parameter), (''location_id'', location_id),
                  (''location_name'', location_name), (''location_locality'', locality),
                  (''timezone'', tz), (''country'', country),
                  (''coordinates'', coordinates), (''bounds'', bounds),
                  (''owner'', owner), (''provider'', provider),
                  (''instruments'', instruments), (''licenses'', licenses),
                  (''datetime_first'', datetime_first), (''datetime_last'', datetime_last),
                  (''is_mobile'', is_mobile), (''is_monitor'', is_monitor)])))))))))))))))))))"

definition extract_sensors_from_locations_full :: "json list \<Rightarrow> error + json list" where
  "extract_sensors_from_locations_full locations =
     and_then (traverse (sensors_of_location sensor_info_full_of) locations) (\<lambda>per_location.
       Inr (concat per_location))"

subsection \<open>Sensor context into measurements\<close>

text \<open>
  The dictionary passed to \<^verbatim>\<open>measurement.update\<close> in \<^verbatim>\<open>get_sensor_measurements_single\<close>
  (\<^verbatim>\<open>run_full_ingestion.py\<close>). Building it raises when a nested field of the sensor
  record is present but is not a dictionary. The clock reading that becomes
  \<^verbatim>\<open>ingestion_timestamp\<close> is a parameter.
\<close>

definition sensor_context_full :: "json \<Rightarrow> string \<Rightarrow> dict \<Rightarrow> error + dict" where
  "sensor_context_full sensor_id now sensor_info =
     and_then (nested_get sensor_info ''country'' ''name'') (\<lambda>country_name.
     and_then (nested_get sensor_info ''country'' ''code'') (\<lambda>country_code.
     and_then (nested_get sensor_info ''coordinates'' ''latitude'') (\<lambda>lat.
     and_then (nested_get sensor_info ''coordinates'' ''longitude'') (\<lambda>lon.
     and_then (nested_get sensor_info ''provider'' ''name'') (\<lambda>provider_name.
       Inr [(''sensor_id'', sensor_id),
            (''sensor_name'', dict_get sensor_info ''sensor_name''),
            (''location_id'', dict_get sensor_info ''location_id''),
            (''location_name'', dict_get sensor_info ''location_name''),
            (''country_name'', country_name),
            (''country_code'', country_code),
            (''coordinates_lat'', lat),
            (''coordinates_lon'', lon),
            (''timezone'', dict_get sensor_info ''timezone''),
            (''provider_name'', provider_name),
            (''ingestion_timestamp'', JStr now)])))))"

text \<open>The same in \<^verbatim>\<open>get_sensor_measurements\<close> of \<^verbatim>\<open>ingest_openaq_data.py\<close>.\<close>

definition sensor_context :: "json \<Rightarrow> dict \<Rightarrow> error + dict" where
  "sensor_context sensor_id sensor_info =
     and_then (nested_get sensor_info ''country'' ''name'') (\<lambda>country_name.
     and_then (nested_get sensor_info ''country'' ''code'') (\<lambda>country_code.
       Inr [(''sensor_id'', sensor_id),
            (''sensor_name'', dict_get sensor_info ''sensor_name''),
            (''location_id'', dict_get sensor_info ''location_id''),
            (''location_name'', dict_get sensor_info ''location_name''),
            (''country_name'', country_name),
            (''country_code'', country_code)]))"

text \<open>And in \<^verbatim>\<open>get_sensor_measurements\<close> of \<^verbatim>\<open>nepal_ingestion.py\<close>.\<close>

definition sensor_context_nepal :: "json \<Rightarrow> dict \<Rightarrow> error + dict" where
  "sensor_context_nepal sensor_id sensor_info =
     Inr [(''sensor_id'', sensor_id),
          (''sensor_name'', dict_get_default sensor_info ''sensor_name'' (JStr ''Unknown'')),
          (''parameter_name'', dict_get_default sensor_info ''parameter_name'' (JStr ''Unknown'')),
          (''location_id'', dict_get sensor_info ''location_id''),
          (''location_name'', dict_get_default sensor_info ''location_name'' (JStr ''Unknown'')),
          (''location_locality'', dict_get sensor_info ''location_locality''),
          (''country_name'', JStr ''Nepal''),
          (''country_code'', JStr ''NP'')]"

text \<open>
  \<^verbatim>\<open>measurement.update({...})\<close> as the value the measurement has afterwards: the method
  exists on dictionaries only, and is looked up before its argument is built.
\<close>

fun updated :: "error + dict \<Rightarrow> json \<Rightarrow> error + json" where
  "updated context (JObj measurement) =
     and_then context (\<lambda>columns. Inr (JObj (dict_update measurement columns)))"
| "updated context _ = Inl AttributeError"

text \<open>
  The same statement on a store of objects: \<^verbatim>\<open>measurement\<close> and \<^verbatim>\<open>sensor_info\<close> are
  references, and \<^verbatim>\<open>update\<close> writes into the object \<^verbatim>\<open>measurement\<close> refers to.
\<close>

type_synonym ref = nat
type_synonym store = "ref \<Rightarrow> json option"

definition update_in_place :: "(dict \<Rightarrow> error + dict) \<Rightarrow> store \<Rightarrow> ref \<Rightarrow> ref \<Rightarrow> error + store" where
  "update_in_place context h measurement sensor_info =
     (case (h measurement, h sensor_info) of
        (Some m, Some (JObj info)) \<Rightarrow>
          and_then (updated (context info) m) (\<lambda>m'. Inr (h(measurement := Some m')))
      | _ \<Rightarrow> Inl AttributeError)"

section \<open>Paginators\<close>

text \<open>
  A request is an endpoint and its query parameters; the network gives the outcome of
  each attempt of a request.
\<close>

datatype endpoint = Locations | SensorMeasurements json

type_synonym network = "endpoint \<Rightarrow> dict \<Rightarrow> nat \<Rightarrow> outcome"

definition locations_params :: "int \<Rightarrow> nat \<Rightarrow> nat \<Rightarrow> dict" where
  "locations_params country_id page limit =
     [(''countries_id'', JInt country_id), (''page'', JInt (int page)),
      (''limit'', JInt (int limit))]"

definition measurements_params :: "string \<Rightarrow> string \<Rightarrow> nat \<Rightarrow> nat \<Rightarrow> dict" where
  "measurements_params date_from date_to page limit =
     [(''date_from'', JStr date_from), (''date_to'', JStr date_to),
      (''page'', JInt (int page)), (''limit'', JInt (int limit))]"

text \<open>
  The \<^verbatim>\<open>while True\<close> loop that every paginator of the repository repeats. \<^verbatim>\<open>fetch\<close> is
  the wrapper call for a page, \<^verbatim>\<open>on_fail\<close> what is logged when it returns nothing,
  \<^verbatim>\<open>per_record\<close> the statement run on each result before the page is appended. The loop
  has no bound of its own: the result is \<^verbatim>\<open>None\<close> when it never ends.
\<close>

partial_function (option) page_loop ::
    "(nat \<Rightarrow> event list \<times> json option) \<Rightarrow> event list \<Rightarrow> (json \<Rightarrow> error + json) \<Rightarrow> nat
       \<Rightarrow> nat \<Rightarrow> json list \<Rightarrow> event list \<Rightarrow> (event list \<times> (error + json list)) option" where
  "page_loop fetch on_fail per_record limit page acc tr =
     (case fetch page of (evs, response) \<Rightarrow>
        (case response of
           None \<Rightarrow> Some (tr @ evs @ on_fail, Inr acc)
         | Some body \<Rightarrow>
             if \<not> truthy body then Some (tr @ evs @ on_fail, Inr acc)
             else (case get_attr_default body ''results'' (JArr []) of
                     Inl e \<Rightarrow> Some (tr @ evs, Inl e)
                   | Inr results \<Rightarrow>
                       if \<not> truthy results then Some (tr @ evs, Inr acc)
                       else (case and_then (iterate results) (traverse per_record) of
                               Inl e \<Rightarrow> Some (tr @ evs, Inl e)
                             | Inr records \<Rightarrow>
                                 if length records < limit
                                 then Some (tr @ evs, Inr (acc @ records))
                                 else page_loop fetch on_fail per_record limit
                                        (page + 1) (acc @ records) (tr @ evs)))))"

definition paginate ::
    "(nat \<Rightarrow> event list \<times> json option) \<Rightarrow> event list \<Rightarrow> (json \<Rightarrow> error + json) \<Rightarrow> nat
       \<Rightarrow> (event list \<times> (error + json list)) option" where
  "paginate fetch on_fail per_record limit = page_loop fetch on_fail per_record limit 1 [] []"

text \<open>\<^verbatim>\<open>run_full_ingestion.py\<close>. The counter \<^verbatim>\<open>stats['total_locations']\<close> incremented at the
  end of \<^verbatim>\<open>get_all_locations_for_country\<close> is updated by the caller in this model.\<close>

definition get_all_locations_for_country ::
    "network \<Rightarrow> int \<Rightarrow> (event list \<times> (error + json list)) option" where
  "get_all_locations_for_country net country_id =
     paginate (\<lambda>page. make_request (net Locations (locations_params country_id page 1000)) 3)
       [Log Warning] Inr 1000"

definition get_sensor_measurements_single ::
    "network \<Rightarrow> dict \<Rightarrow> string \<Rightarrow> string \<Rightarrow> (event list \<times> (error + json list)) option" where
  "get_sensor_measurements_single net sensor_info date_from now =
     (let sensor_id = dict_get sensor_info ''sensor_id'' in
      if \<not> truthy sensor_id then Some ([], Inr [])
      else paginate
             (\<lambda>page. make_request
                (net (SensorMeasurements sensor_id) (measurements_params date_from now page 1000)) 3)
             [] (updated (sensor_context_full sensor_id now sensor_info)) 1000)"

text \<open>\<^verbatim>\<open>ingest_openaq_data.py\<close>.\<close>

definition get_all_locations ::
    "network \<Rightarrow> int \<Rightarrow> (event list \<times> (error + json list)) option" where
  "get_all_locations net country_id =
     paginate (\<lambda>page. make_request_once (net Locations (locations_params country_id page 1000)))
       [] Inr 1000"


text \<open>
  \<^verbatim>\<open>nepal_ingestion.py\<close>. The progress counters of the Nepal script are not followed
  through this function: each page's wrapper call starts from the counter value \<^verbatim>\<open>0\<close>
  and its count is dropped.
\<close>

definition get_sensor_measurements_nepal ::
    "network \<Rightarrow> dict \<Rightarrow> string \<Rightarrow> string \<Rightarrow> (event list \<times> (error + json list)) option" where
  "get_sensor_measurements_nepal net sensor_info date_from now =
     (let sensor_id = dict_get sensor_info ''sensor_id'' in
      if \<not> truthy sensor_id then Some ([Log Warning], Inr [])
      else paginate
             (\<lambda>page.
                (case make_request_with_retry
                        (net (SensorMeasurements sensor_id)
                           (measurements_params date_from now page 1000)) 3 0 of
                   (evs, errors, response) \<Rightarrow> (evs, response)))
             [Log Error] (updated (sensor_context_nepal sensor_id sensor_info)) 1000)"

section \<open>Vocabulary of the pagination properties\<close>

text \<open>Rounded-up division, and what it means for a result stream to be served
  consistently in pages of \<open>L\<close>: page \<open>p\<close> (counted from 1) holds the records
  \<open>(p - 1) * L\<close> up to \<open>p * L\<close> of the stream, and is answered by one successful call.
  \<open>serves\<close> speaks about the wrapper call of a page, \<open>answers\<close> about the network
  below the wrapper.\<close>

definition ceil_div :: "nat \<Rightarrow> nat \<Rightarrow> nat" where
  "ceil_div n L = (n + L - 1) div L"

definition page_of :: "json list \<Rightarrow> nat \<Rightarrow> nat \<Rightarrow> json list" where
  "page_of stream L p = take L (drop ((p - 1) * L) stream)"

definition serves :: "(nat \<Rightarrow> event list \<times> json option) \<Rightarrow> json list \<Rightarrow> nat \<Rightarrow> bool" where
  "serves fetch stream L \<longleftrightarrow>
     (\<forall>p\<ge>1. \<exists>evs body. fetch p = (evs, Some (JObj body)) \<and> calls evs = 1
         \<and> map_of body ''results'' = Some (JArr (page_of stream L p)))"

definition answers :: "(nat \<Rightarrow> nat \<Rightarrow> outcome) \<Rightarrow> json list \<Rightarrow> nat \<Rightarrow> bool" where
  "answers requests stream L \<longleftrightarrow>
     (\<forall>p\<ge>1. \<exists>body. requests p 0 = Success (JObj body)
         \<and> map_of body ''results'' = Some (JArr (page_of stream L p)))"

section \<open>Batch buffer and flusher\<close>

text \<open>
  The parquet files of a run: the run's timestamp is fixed, so a file is named by its kind
  and, for a measurement batch, its index. Whether building the data frame and writing
  it succeeds is decided by the environment, per file and content.
\<close>

datatype filename = AllLocations | AllSensors | MeasurementsBatch nat | MeasurementsFinal

type_synonym disk = "filename \<Rightarrow> json list \<Rightarrow> bool"

text \<open>
  \<^verbatim>\<open>save_batch_to_parquet\<close> (\<^verbatim>\<open>run_full_ingestion.py\<close>), \<^verbatim>\<open>save_to_parquet\<close>
  (\<^verbatim>\<open>ingest_openaq_data.py\<close>) and \<^verbatim>\<open>save_to_parquet_partitioned\<close>
  (\<^verbatim>\<open>nepal_ingestion.py\<close>) share one body: nothing to save is a warning, a failure
  inside the \<^verbatim>\<open>try\<close> is logged as an error, and in every case the function returns
  \<^verbatim>\<open>None\<close>. It acts on the trace and on the files the run has saved so far, which
  are the files written to their end: what a failed write leaves on the disk is not a
  saved batch and is not recorded. It does not touch the list it is given.
\<close>

definition save_batch_to_parquet ::
    "disk \<Rightarrow> json list \<Rightarrow> filename \<Rightarrow> (filename \<times> json list) list \<times> event list
       \<Rightarrow> (filename \<times> json list) list \<times> event list" where
  "save_batch_to_parquet writable data filename out =
     (if data = [] then (fst out, snd out @ [Log Warning])
      else if writable filename data then (fst out @ [(filename, data)], snd out)
      else (fst out, snd out @ [Log Error]))"

section \<open>Orchestrators\<close>

text \<open>How a phase of a run ends: normally, by \<^verbatim>\<open>KeyboardInterrupt\<close>, or by another
  exception.\<close>

datatype completion = Normal | Interrupted | Failed error

subsection \<open>\<^verbatim>\<open>ingest_openaq_data.py\<close> and \<^verbatim>\<open>nepal_ingestion.py\<close>: the measurement loops\<close>

record collector =
  all_measurements :: "json list"
  batches :: nat
  written :: "(filename \<times> json list) list"
  trace :: "event list"

definition save :: "disk \<Rightarrow> json list \<Rightarrow> filename \<Rightarrow> collector \<Rightarrow> collector" where
  "save writable data filename c =
     (case save_batch_to_parquet writable data filename (written c, trace c) of
        (files, tr) \<Rightarrow> c\<lparr>written := files, trace := tr\<rparr>)"

text \<open>
  \<^verbatim>\<open>for i, sensor_info in enumerate(all_sensors, 1)\<close> of
  \<^verbatim>\<open>OpenAQIngester.run_full_ingestion\<close>. \<^verbatim>\<open>fetch_measurements\<close> stands for
  \<^verbatim>\<open>self.get_sensor_measurements\<close>; nothing in this script catches an exception.
  \<^verbatim>\<open>periodic_save\<close> is the \<^verbatim>\<open>if len(all_measurements) >= 100000\<close> statement that ends
  the loop body.
\<close>

definition periodic_save :: "disk \<Rightarrow> nat \<Rightarrow> collector \<Rightarrow> collector" where
  "periodic_save writable i c =
     (if 100000 \<le> length (all_measurements c)
      then (save writable (all_measurements c) (MeasurementsBatch i) c)\<lparr>all_measurements := []\<rparr>
      else c)"

fun ingest_sensors ::
    "(json \<Rightarrow> dict \<Rightarrow> (event list \<times> (error + json list)) option) \<Rightarrow> disk \<Rightarrow> nat
       \<Rightarrow> json list \<Rightarrow> collector \<Rightarrow> (completion \<times> collector) option" where
  "ingest_sensors fetch_measurements writable i [] c = Some (Normal, c)"
| "ingest_sensors fetch_measurements writable i (sensor # rest) c =
     (case sensor of
        JObj sensor_info \<Rightarrow>
          (let sensor_id = dict_get sensor_info ''sensor_id'' in
           if \<not> truthy sensor_id then ingest_sensors fetch_measurements writable (i + 1) rest c
           else (case fetch_measurements sensor_id sensor_info of
                   None \<Rightarrow> None
                 | Some (evs, Inl e) \<Rightarrow> Some (Failed e, c\<lparr>trace := trace c @ evs\<rparr>)
                 | Some (evs, Inr measurements) \<Rightarrow>
                     ingest_sensors fetch_measurements writable (i + 1) rest
                       (periodic_save writable i
                          (c\<lparr>trace := trace c @ evs,
                             all_measurements := all_measurements c @ measurements\<rparr>))))
      | _ \<Rightarrow> Some (Failed AttributeError, c))"




text \<open>
  The loop of \<^verbatim>\<open>run_nepal_ingestion\<close>, whose threshold is \<^verbatim>\<open>self.batch_size\<close> and whose
  files are numbered by \<^verbatim>\<open>batch_count\<close>. The skipping of a sensor without an id happens
  inside \<^verbatim>\<open>get_sensor_measurements\<close> here.
\<close>

definition save_in_batches :: "disk \<Rightarrow> nat \<Rightarrow> collector \<Rightarrow> collector" where
  "save_in_batches writable batch_size c =
     (if batch_size \<le> length (all_measurements c)
      then (let c1 = c\<lparr>batches := batches c + 1\<rparr> in
            (save writable (all_measurements c1) (MeasurementsBatch (batches c1)) c1)
              \<lparr>all_measurements := []\<rparr>)
      else c)"

fun nepal_sensors ::
    "(dict \<Rightarrow> (event list \<times> (error + json list)) option) \<Rightarrow> disk \<Rightarrow> nat
       \<Rightarrow> json list \<Rightarrow> collector \<Rightarrow> (completion \<times> collector) option" where
  "nepal_sensors fetch_measurements writable batch_size [] c = Some (Normal, c)"
| "nepal_sensors fetch_measurements writable batch_size (sensor # rest) c =
     (case sensor of
        JObj sensor_info \<Rightarrow>
          (case fetch_measurements sensor_info of
             None \<Rightarrow> None
           | Some (evs, Inl e) \<Rightarrow> Some (Failed e, c\<lparr>trace := trace c @ evs\<rparr>)
           | Some (evs, Inr measurements) \<Rightarrow>
               nepal_sensors fetch_measurements writable batch_size rest
                 (save_in_batches writable batch_size
                    (c\<lparr>trace := trace c @ evs,
                       all_measurements := all_measurements c @ measurements\<rparr>)))
      | _ \<Rightarrow> Some (Failed AttributeError, c))"

definition nepal_measurements ::
    "network \<Rightarrow> disk \<Rightarrow> nat \<Rightarrow> string \<Rightarrow> json list \<Rightarrow> (completion \<times> collector) option" where
  "nepal_measurements net writable batch_size now sensors =
     (case nepal_sensors
             (\<lambda>sensor_info.
                get_sensor_measurements_nepal net sensor_info ''2024-01-01T00:00:00Z'' now)
             writable batch_size sensors
             \<lparr>all_measurements = [], batches = 0, written = [], trace = []\<rparr> of
        None \<Rightarrow> None
      | Some (Normal, c) \<Rightarrow>
          Some (Normal,
                if all_measurements c \<noteq> []
                then (let c1 = c\<lparr>batches := batches c + 1\<rparr> in
                      save writable (all_measurements c1) (MeasurementsBatch (batches c1)) c1)
                else c)
      | Some (ending, c) \<Rightarrow> Some (ending, c))"

subsection \<open>\<^verbatim>\<open>run_full_ingestion.py\<close>: \<^verbatim>\<open>FullScaleOpenAQIngester.run_full_ingestion\<close>\<close>

text \<open>
  The counters of \<^verbatim>\<open>self.stats\<close>, the local lists of the run, the files it has written
  and the summary file. \<^verbatim>\<open>stats['current_country']\<close> and the times only feed log lines
  and are left out.
\<close>

record stats =
  total_locations :: nat
  total_sensors :: nat
  total_measurements :: nat
  countries_processed :: nat
  current_sensor :: nat
  batch_count :: nat

record summary =
  status :: string
  summary_locations :: nat
  summary_sensors :: nat
  summary_measurements :: nat
  summary_batch_count :: nat
  measurement_files :: "filename list"

record run =
  stats :: stats
  current_batch :: "json list"
  measurement_batches :: "filename list"
  parquet_files :: "(filename \<times> json list) list"
  summary_file :: "summary option"
  events :: "event list"

definition initial_run :: run where
  "initial_run =
     \<lparr>stats = \<lparr>total_locations = 0, total_sensors = 0, total_measurements = 0,
                countries_processed = 0, current_sensor = 0, batch_count = 0\<rparr>,
      current_batch = [], measurement_batches = [], parquet_files = [],
      summary_file = None, events = []\<rparr>"

definition saved :: "disk \<Rightarrow> json list \<Rightarrow> filename \<Rightarrow> run \<Rightarrow> run" where
  "saved writable data filename r =
     (case save_batch_to_parquet writable data filename (parquet_files r, events r) of
        (files, tr) \<Rightarrow> r\<lparr>parquet_files := files, events := tr\<rparr>)"

text \<open>
  Phase 1, \<^verbatim>\<open>for country_name, country_id in self.target_countries.items()\<close>.
  \<^verbatim>\<open>locate\<close> stands for \<^verbatim>\<open>self.get_all_locations_for_country\<close>.
\<close>

fun collect_countries ::
    "(int \<Rightarrow> (event list \<times> (error + json list)) option) \<Rightarrow> (string \<times> int) list
       \<Rightarrow> json list \<Rightarrow> json list \<Rightarrow> run \<Rightarrow> (completion \<times> json list \<times> json list \<times> run) option" where
  "collect_countries locate [] all_locations all_sensors r =
     Some (Normal, all_locations, all_sensors, r)"
| "collect_countries locate ((country_name, country_id) # rest) all_locations all_sensors r =
     (case locate country_id of
        None \<Rightarrow> None
      | Some (evs, Inl e) \<Rightarrow>
          Some (Failed e, all_locations, all_sensors, r\<lparr>events := events r @ evs\<rparr>)
      | Some (evs, Inr locations) \<Rightarrow>
          (let r1 = r\<lparr>events := events r @ evs,
                      stats := (stats r)\<lparr>total_locations :=
                                 total_locations (stats r) + length locations\<rparr>\<rparr> in
           case extract_sensors_from_locations_full locations of
             Inl e \<Rightarrow> Some (Failed e, all_locations @ locations, all_sensors, r1)
           | Inr sensors \<Rightarrow>
               collect_countries locate rest (all_locations @ locations) (all_sensors @ sensors)
                 (r1\<lparr>stats := (stats r1)\<lparr>total_sensors :=
                                   total_sensors (stats r1) + length sensors,
                                 countries_processed :=
                                   countries_processed (stats r1) + 1\<rparr>\<rparr>)))"

text \<open>
  \<^verbatim>\<open>get_sensor_measurements_batch\<close>. The source runs the sensors of a batch on a thread
  pool and joins the results as they complete; the model joins them in the order of the
  batch. A worker that raises is logged and contributes nothing; for a sensor that is
  not a dictionary the handler itself raises, at \<^verbatim>\<open>sensor_info.get\<close>, and the exception
  leaves the function. \<^verbatim>\<open>signal k\<close> tells whether the interruption arrives when \<open>k\<close>
  sensors of the run have been joined: then the list built so far (\<^verbatim>\<open>all_measurements\<close>
  in the source, \<open>collected\<close> here), local to this function, is lost with its frame.
  Leaving the \<^verbatim>\<open>with\<close> block waits for the workers still pending: their requests are
  made and their results dropped.
\<close>

fun finish_pending ::
    "(dict \<Rightarrow> (event list \<times> (error + json list)) option) \<Rightarrow> json list \<Rightarrow> run \<Rightarrow> run option" where
  "finish_pending fetch_measurements [] r = Some r"
| "finish_pending fetch_measurements (sensor # rest) r =
     (case sensor of
        JObj sensor_info \<Rightarrow>
          (case fetch_measurements sensor_info of
             None \<Rightarrow> None
           | Some (evs, result) \<Rightarrow>
               finish_pending fetch_measurements rest (r\<lparr>events := events r @ evs\<rparr>))
      | _ \<Rightarrow> finish_pending fetch_measurements rest r)"

fun get_sensor_measurements_batch ::
    "(dict \<Rightarrow> (event list \<times> (error + json list)) option) \<Rightarrow> (nat \<Rightarrow> bool) \<Rightarrow> nat
       \<Rightarrow> json list \<Rightarrow> json list \<Rightarrow> run \<Rightarrow> (completion \<times> json list \<times> run) option" where
  "get_sensor_measurements_batch fetch_measurements signal k [] collected r =
     Some (Normal, collected, r)"
| "get_sensor_measurements_batch fetch_measurements signal k (sensor # rest) collected r =
     (if signal k
      then (case finish_pending fetch_measurements (sensor # rest) r of
              None \<Rightarrow> None
            | Some r1 \<Rightarrow> Some (Interrupted, collected, r1))
      else (case sensor of
              JObj sensor_info \<Rightarrow>
                (case fetch_measurements sensor_info of
                   None \<Rightarrow> None
                 | Some (evs, Inl e) \<Rightarrow>
                     get_sensor_measurements_batch fetch_measurements signal (k + 1) rest
                       collected (r\<lparr>events := events r @ evs @ [Log Error]\<rparr>)
                 | Some (evs, Inr measurements) \<Rightarrow>
                     get_sensor_measurements_batch fetch_measurements signal (k + 1) rest
                       (collected @ measurements)
                       (r\<lparr>events := events r @ evs,
                          stats := (stats r)\<lparr>current_sensor := current_sensor (stats r) + 1,
                                     total_measurements :=
                                       total_measurements (stats r) + length measurements\<rparr>\<rparr>))
            | _ \<Rightarrow>
                (case finish_pending fetch_measurements rest r of
                   None \<Rightarrow> None
                 | Some r1 \<Rightarrow> Some (Failed AttributeError, collected, r1))))"

text \<open>\<^verbatim>\<open>if len(current_batch) >= self.batch_size\<close>, the statement that follows
  \<^verbatim>\<open>current_batch.extend(batch_measurements)\<close>.\<close>

definition save_when_large :: "disk \<Rightarrow> nat \<Rightarrow> run \<Rightarrow> run" where
  "save_when_large writable batch_size r =
     (if batch_size \<le> length (current_batch r)
      then (let batch_filename = MeasurementsBatch (batch_count (stats r));
                r1 = saved writable (current_batch r) batch_filename r in
            r1\<lparr>measurement_batches := measurement_batches r1 @ [batch_filename],
               current_batch := [],
               stats := (stats r1)\<lparr>batch_count := batch_count (stats r1) + 1\<rparr>\<rparr>)
      else r)"

text \<open>
  Phase 2, \<^verbatim>\<open>for i in range(0, len(all_sensors), sensor_batch_size)\<close> with
  \<^verbatim>\<open>sensor_batch_size = 50\<close>: \<^verbatim>\<open>sensors\<close> is \<^verbatim>\<open>all_sensors[i:]\<close>.
\<close>

function collect_measurements ::
    "(dict \<Rightarrow> (event list \<times> (error + json list)) option) \<Rightarrow> disk \<Rightarrow> (nat \<Rightarrow> bool) \<Rightarrow> nat
       \<Rightarrow> nat \<Rightarrow> json list \<Rightarrow> run \<Rightarrow> (completion \<times> run) option" where
  "collect_measurements fetch_measurements writable signal batch_size i sensors r =
     (if sensors = [] then Some (Normal, r)
      else (case get_sensor_measurements_batch fetch_measurements signal i
                   (take 50 sensors) [] r of
              None \<Rightarrow> None
            | Some (Normal, batch_measurements, r1) \<Rightarrow>
                collect_measurements fetch_measurements writable signal batch_size
                  (i + 50) (drop 50 sensors)
                  (save_when_large writable batch_size
                     (r1\<lparr>current_batch := current_batch r1 @ batch_measurements\<rparr>))
            | Some (ending, batch_measurements, r1) \<Rightarrow> Some (ending, r1)))"
  by pat_completeness auto
termination
  by (relation "measure (\<lambda>(f, w, s, b, i, sensors, r). length sensors)") auto

declare collect_measurements.simps [simp del]

text \<open>\<^verbatim>\<open>if current_batch:\<close> after the loop, and \<^verbatim>\<open>create_ingestion_summary\<close>, whose
  file is taken to be written without failure.\<close>

definition save_final_batch :: "disk \<Rightarrow> run \<Rightarrow> run" where
  "save_final_batch writable r =
     (if current_batch r \<noteq> []
      then (let r1 = saved writable (current_batch r) MeasurementsFinal r in
            r1\<lparr>measurement_batches := measurement_batches r1 @ [MeasurementsFinal],
               stats := (stats r1)\<lparr>batch_count := batch_count (stats r1) + 1\<rparr>\<rparr>)
      else r)"

definition create_ingestion_summary :: "bool \<Rightarrow> run \<Rightarrow> run" where
  "create_ingestion_summary interrupted r =
     r\<lparr>summary_file := Some
         \<lparr>status = (if interrupted then ''interrupted'' else ''completed''),
          summary_locations = total_locations (stats r),
          summary_sensors = total_sensors (stats r),
          summary_measurements = total_measurements (stats r),
          summary_batch_count = batch_count (stats r),
          measurement_files = measurement_batches r\<rparr>\<rparr>"

text \<open>
  The end of the \<^verbatim>\<open>try\<close> statement: its last statements when the loop has ended, the
  \<^verbatim>\<open>except KeyboardInterrupt\<close> handler, which returns, and the \<^verbatim>\<open>except Exception\<close>
  handler, which logs and raises again.
\<close>

fun finish :: "disk \<Rightarrow> completion \<times> run \<Rightarrow> completion \<times> run" where
  "finish writable (Normal, r) =
     (Normal, create_ingestion_summary False (save_final_batch writable r))"
| "finish writable (Interrupted, r) =
     (Normal, create_ingestion_summary True (r\<lparr>events := events r @ [Log Warning]\<rparr>))"
| "finish writable (Failed e, r) = (Failed e, r\<lparr>events := events r @ [Log Error]\<rparr>)"

text \<open>
  The whole run, over the two calls it makes to the paginators. The interruption is
  followed through phase 2 only.
\<close>

definition run_ingestion ::
    "(int \<Rightarrow> (event list \<times> (error + json list)) option)
       \<Rightarrow> (dict \<Rightarrow> (event list \<times> (error + json list)) option)
       \<Rightarrow> disk \<Rightarrow> (nat \<Rightarrow> bool) \<Rightarrow> nat \<Rightarrow> (string \<times> int) list
       \<Rightarrow> (completion \<times> run) option" where
  "run_ingestion locate fetch_measurements writable signal batch_size target_countries =
     (case collect_countries locate target_countries [] [] initial_run of
        None \<Rightarrow> None
      | Some (Normal, all_locations, all_sensors, r) \<Rightarrow>
          map_option (finish writable)
            (collect_measurements fetch_measurements writable signal batch_size 0 all_sensors
               (saved writable all_sensors AllSensors
                  (saved writable all_locations AllLocations r)))
      | Some (ending, all_locations, all_sensors, r) \<Rightarrow> Some (finish writable (ending, r)))"


section \<open>Vocabulary of the partial-coverage property\<close>



section \<open>Vocabulary of the flattening properties\<close>

text \<open>The object a reference holds after a statement, when the statement did not
  raise; and a field of a dictionary that is absent or holds a dictionary.\<close>

definition object_after :: "error + store \<Rightarrow> ref \<Rightarrow> json option" where
  "object_after result ref = (case result of Inl e \<Rightarrow> None | Inr h \<Rightarrow> h ref)"

definition mapping_or_missing :: "dict \<Rightarrow> string \<Rightarrow> bool" where
  "mapping_or_missing d k =
     (case map_of d k of None \<Rightarrow> True | Some (JObj members) \<Rightarrow> True | Some other \<Rightarrow> False)"

section \<open>Example environments\<close>

text \<open>Concrete networks on which the theorems below are exercised.\<close>

definition empty_page :: json where
  "empty_page = JObj [(''results'', JArr [])]"

definition slow_then_ok :: "nat \<Rightarrow> outcome" where
  "slow_then_ok k = (if k < 2 then Timeout else Success empty_page)"

definition always_rate_limited :: "nat \<Rightarrow> outcome" where
  "always_rate_limited k = HTTPError 429"

definition always_not_found :: "nat \<Rightarrow> outcome" where
  "always_not_found k = HTTPError 404"


definition always_malformed :: "nat \<Rightarrow> outcome" where
  "always_malformed k = JSONDecodeError"

definition four_records :: "json list" where
  "four_records = [JInt 1, JInt 2, JInt 3, JInt 4]"

definition serve_pages :: "json list \<Rightarrow> nat \<Rightarrow> nat \<Rightarrow> event list \<times> json option" where
  "serve_pages stream L p =
     ([Request, RequestDelay], Some (JObj [(''results'', JArr (page_of stream L p))]))"

definition requested_page :: "dict \<Rightarrow> nat" where
  "requested_page params = (case dict_get params ''page'' of JInt i \<Rightarrow> nat i | _ \<Rightarrow> 0)"

definition page_server :: "json list \<Rightarrow> nat \<Rightarrow> network" where
  "page_server stream L endpoint params attempt =
     Success (JObj [(''results'', JArr (page_of stream L (requested_page params)))])"

definition reading :: json where
  "reading = JObj [(''value'', JInt 7)]"

definition unnumbered_sensor :: dict where
  "unnumbered_sensor = [(''sensor_id'', JInt 0), (''sensor_name'', JStr ''pm25'')]"

definition nameless_sensor :: dict where
  "nameless_sensor = [(''sensor_name'', JStr ''pm25'')]"

definition first_page_only :: network where
  "first_page_only endpoint params attempt =
     (if requested_page params = 1
      then Success (JObj [(''results'', JArr (replicate 1000 reading))])
      else Timeout)"




text \<open>A location with \<open>n\<close> sensors, the sensor record extracted from it, and paginator
  results, disks and interruption signals for whole runs.\<close>

definition station :: "nat \<Rightarrow> json" where
  "station n = JObj [(''id'', JInt 1), (''sensors'', JArr (replicate n (JObj [(''id'', JInt 9)])))]"

definition station_sensor :: dict where
  "station_sensor =
     [(''sensor_id'', JInt 9), (''sensor_name'', JNull), (''parameter'', JObj []),
      (''location_id'', JInt 1), (''location_name'', JNull), (''location_locality'', JNull),
      (''timezone'', JNull), (''country'', JObj []), (''coordinates'', JObj []),
      (''bounds'', JArr []), (''owner'', JObj []), (''provider'', JObj []),
      (''instruments'', JArr []), (''licenses'', JArr []), (''datetime_first'', JNull),
      (''datetime_last'', JNull), (''is_mobile'', JBool False), (''is_monitor'', JBool False)]"






definition one_station :: "nat \<Rightarrow> int \<Rightarrow> (event list \<times> (error + json list)) option" where
  "one_station n country_id = Some ([Request, RequestDelay], Inr [station n])"


definition bulk_reading :: "dict \<Rightarrow> (event list \<times> (error + json list)) option" where
  "bulk_reading sensor_info = Some ([Request, RequestDelay], Inr (replicate 75001 reading))"

definition always_writable :: disk where
  "always_writable filename data = True"

definition never_writable :: disk where
  "never_writable filename data = False"

definition small_files_only :: disk where
  "small_files_only filename data = (length data < 100000)"

definition first_batch_fails :: disk where
  "first_batch_fails filename data = (filename \<noteq> MeasurementsBatch 0)"


definition no_signal :: "nat \<Rightarrow> bool" where
  "no_signal k = False"

definition bulk_run :: "(completion \<times> run) option" where
  "bulk_run =
     run_ingestion (one_station 1) bulk_reading always_writable no_signal 75000 [(''Nepal'', 145)]"

definition unwritable_run :: "(completion \<times> run) option" where
  "unwritable_run =
     run_ingestion (one_station 1) bulk_reading never_writable no_signal 75000 [(''Nepal'', 145)]"


definition full_buffer :: run where
  "full_buffer = initial_run\<lparr>current_batch := replicate 75001 reading\<rparr>"

definition full_collector :: collector where
  "full_collector =
     \<lparr>all_measurements = replicate 100000 reading, batches = 0, written = [], trace = []\<rparr>"

definition two_objects :: store where
  "two_objects ref =
     (if ref = 0 then Some reading else if ref = 1 then Some (JObj station_sensor) else None)"

definition kathmandu :: dict where
  "kathmandu =
     [(''sensor_name'', JStr ''pm25''), (''location_id'', JInt 1),
      (''coordinates'', JObj [(''latitude'', JFloat (277 / 10)), (''longitude'', JFloat (853 / 10))])]"

definition pokhara :: dict where
  "pokhara =
     [(''sensor_name'', JStr ''pm25''), (''location_id'', JInt 1),
      (''coordinates'', JObj [(''latitude'', JFloat (282 / 10)), (''longitude'', JFloat (839 / 10))])]"

definition ratnapark :: dict where
  "ratnapark =
     [(''id'', JInt 1), (''name'', JStr ''Ratnapark''),
      (''coordinates'', JObj [(''latitude'', JFloat (277 / 10)), (''longitude'', JFloat (853 / 10))])]"

section \<open>Properties of the HTTP client wrappers\<close>

lemma calls_simps [simp]:
  "calls [] = 0"
  "calls (Request # tr) = Suc (calls tr)"
  "calls (RequestDelay # tr) = calls tr"
  "calls (Sleep n # tr) = calls tr"
  "calls (Log l # tr) = calls tr"
  "calls (tr @ tr') = calls tr + calls tr'"
  by (simp_all add: calls_def)

lemma calls_wait_before_retry [simp]: "calls (wait_before_retry m a) = 0"
  by (simp add: wait_before_retry_def)

lemma fst_emit [simp]: "fst (emit evs r) = evs @ fst r"
  by (simp add: emit_def)

lemma snd_emit [simp]: "snd (emit evs r) = snd r"
  by (simp add: emit_def)

text \<open>
  When no attempt succeeds, the Nepal wrapper uses up every attempt, whatever the kinds
  of the failures, and returns \<^verbatim>\<open>None\<close>.
\<close>

lemma make_request_with_retry_from_all_fail:
  assumes "\<forall>k. attempt \<le> k \<and> k < max_retries \<longrightarrow> (\<forall>b. get k \<noteq> Success b)"
  shows "calls (fst (make_request_with_retry_from get max_retries errors attempt))
           = max_retries - attempt
       \<and> snd (snd (make_request_with_retry_from get max_retries errors attempt)) = None"
  using assms
proof (induction get max_retries errors attempt rule: make_request_with_retry_from.induct)
  case (1 get max_retries errors attempt)
  show ?case
  proof (cases "max_retries \<le> attempt")
    case True
    then show ?thesis by (simp add: make_request_with_retry_from.simps)
  next
    case False
    then have lt: "attempt < max_retries" by simp
    have nosucc: "\<forall>b. get attempt \<noteq> Success b" using 1(7) lt by simp
    have rest: "\<forall>k. Suc attempt \<le> k \<and> k < max_retries \<longrightarrow> (\<forall>b. get k \<noteq> Success b)"
      using 1(7) by simp
    show ?thesis
    proof (cases "get attempt")
      case (Success b)
      with nosucc show ?thesis by simp
    next
      case Timeout
      with False 1(1)[OF False Timeout rest] lt show ?thesis
        by (subst (1 2) make_request_with_retry_from.simps) simp
    next
      case (HTTPError s)
      show ?thesis
      proof (cases "s = 429")
        case True
        with False HTTPError 1(2)[OF False HTTPError True rest] lt show ?thesis
          by (subst (1 2) make_request_with_retry_from.simps) simp
      next
        case other: False
        with False HTTPError 1(3)[OF False HTTPError other rest] lt show ?thesis
          by (subst (1 2) make_request_with_retry_from.simps) simp
      qed
    next
      case ConnectionError
      with False 1(4)[OF False ConnectionError rest] lt show ?thesis
        by (subst (1 2) make_request_with_retry_from.simps) simp
    next
      case RequestException
      with False 1(5)[OF False RequestException rest] lt show ?thesis
        by (subst (1 2) make_request_with_retry_from.simps) simp
    next
      case JSONDecodeError
      with False 1(6)[OF False JSONDecodeError rest] lt show ?thesis
        by (subst (1 2) make_request_with_retry_from.simps) simp
    qed
  qed
qed

text \<open>
  C3, as stated, fails: the Nepal wrapper answers an HTTP 404 on every attempt with three
  calls, not one.
\<close>

theorem client_error_retried_counterexample:
  "calls (fst (make_request_with_retry always_not_found 3 0)) = 3
   \<and> calls (fst (make_request_with_retry always_not_found 3 0)) \<noteq> 1"
  by (simp add: make_request_with_retry_def make_request_with_retry_from.simps
        always_not_found_def numeral_3_eq_3)

text \<open>
  C3, amended. The plain \<^verbatim>\<open>make_request\<close> of \<^verbatim>\<open>ingest_openaq_data.py\<close> makes one
  call whatever the outcome: a client error (a 4xx other than 429) or an unparseable
  body ends it at once with \<^verbatim>\<open>None\<close>. The Nepal wrapper has no failure that it does not
  retry: when every attempt ends in a client error or an unparseable body, it makes
  \<^verbatim>\<open>max_retries\<close> calls and then returns \<^verbatim>\<open>None\<close>.
\<close>

theorem no_retry_amended:
  assumes "refused 0 = JSONDecodeError
             \<or> (\<exists>s. refused 0 = HTTPError s \<and> 400 \<le> s \<and> s < 500 \<and> s \<noteq> 429)"
      and "\<forall>k < max_retries. rejecting k = JSONDecodeError
             \<or> (\<exists>s. rejecting k = HTTPError s \<and> 400 \<le> s \<and> s < 500 \<and> s \<noteq> 429)"
  shows "calls (fst (make_request_once refused)) = 1
       \<and> snd (make_request_once refused) = None
       \<and> calls (fst (make_request_once any)) = 1
       \<and> calls (fst (make_request_with_retry rejecting max_retries errors)) = max_retries
       \<and> snd (snd (make_request_with_retry rejecting max_retries errors)) = None"
proof -
  have refused: "calls (fst (make_request_once refused)) = 1
       \<and> snd (make_request_once refused) = None"
    using assms(1) by auto
  have once: "calls (fst (make_request_once any)) = 1"
    by (cases "any 0") simp_all
  have "\<forall>k. 0 \<le> k \<and> k < max_retries \<longrightarrow> (\<forall>b. rejecting k \<noteq> Success b)"
    using assms(2) by auto
  from make_request_with_retry_from_all_fail [OF this, of errors]
  have nepal: "calls (fst (make_request_with_retry rejecting max_retries errors)) = max_retries
       \<and> snd (snd (make_request_with_retry rejecting max_retries errors)) = None"
    by (simp add: make_request_with_retry_def)
  from refused once nepal show ?thesis by simp
qed

theorem no_retry_amended_witness:
  "always_malformed 0 = JSONDecodeError
   \<and> always_not_found 0 = HTTPError 404
   \<and> make_request_once always_malformed = ([Request, RequestDelay, Log Error], None)
   \<and> calls (fst (make_request_once always_rate_limited)) = 1
   \<and> calls (fst (make_request_with_retry always_not_found 3 0)) = 3
   \<and> snd (snd (make_request_with_retry always_not_found 3 0)) = None"
proof -
  have h1: "always_malformed 0 = JSONDecodeError
             \<or> (\<exists>s. always_malformed 0 = HTTPError s \<and> 400 \<le> s \<and> s < 500 \<and> s \<noteq> 429)"
    by (simp add: always_malformed_def)
  have h2: "\<forall>k < (3::nat). always_not_found k = JSONDecodeError
         \<or> (\<exists>s. always_not_found k = HTTPError s \<and> 400 \<le> s \<and> s < 500 \<and> s \<noteq> 429)"
    by (simp add: always_not_found_def)
  from no_retry_amended [where refused = always_malformed and rejecting = always_not_found
      and max_retries = 3 and any = always_rate_limited and errors = 0, OF h1 h2]
  show ?thesis by (simp add: always_not_found_def always_malformed_def)
qed

text \<open>
  C5, as stated, fails: with \<^verbatim>\<open>max_retries = 3\<close> the Nepal wrapper stops a rate-limited
  request after three calls, not four.
\<close>

theorem rate_limited_calls_counterexample:
  "calls (fst (make_request_with_retry always_rate_limited 3 0)) = 3
   \<and> calls (fst (make_request_with_retry always_rate_limited 3 0)) \<noteq> 4"
  by (simp add: make_request_with_retry_def make_request_with_retry_from.simps
        always_rate_limited_def numeral_3_eq_3)

text \<open>
  C5, amended. With \<^verbatim>\<open>retries = 3\<close> the full-scale \<^verbatim>\<open>make_request\<close> makes three calls
  on two timeouts followed by a success and returns the third call's body; on four
  rate-limited answers it makes four calls, waiting 60, 120 and 180 seconds in between,
  logs the HTTP error and returns \<^verbatim>\<open>None\<close>, a value that carries no failure kind. In the
  Nepal wrapper \<^verbatim>\<open>max_retries = 3\<close> bounds the attempts: the first scenario again takes
  three calls and returns the body, a request that stays rate limited is given up after
  three calls with \<^verbatim>\<open>None\<close>.
\<close>

theorem retry_policy_amended:
  assumes "slow 0 = Timeout" and "slow 1 = Timeout" and "slow 2 = Success body"
      and "\<forall>k \<le> 3. limited k = HTTPError 429"
  shows "make_request slow 3 =
           ([Request, Log Warning, Sleep 1, Request, Log Warning, Sleep 2,
             Request, RequestDelay], Some body)
       \<and> calls (fst (make_request slow 3)) = 3
       \<and> make_request limited 3 =
           ([Request, Log Warning, Sleep 60, Request, Log Warning, Sleep 120,
             Request, Log Warning, Sleep 180, Request, Log Error], None)
       \<and> calls (fst (make_request limited 3)) = 4
       \<and> make_request_with_retry slow 3 errors =
           ([Request, Log Warning, Sleep 2, Request, Log Warning, Sleep 4,
             Request, RequestDelay], errors + 2, Some body)
       \<and> calls (fst (make_request_with_retry slow 3 errors)) = 3
       \<and> make_request_with_retry limited 3 errors =
           ([Request, Log Warning, Sleep 60, Sleep 2, Request, Log Warning, Sleep 60, Sleep 4,
             Request, Log Warning, Sleep 60, Log Error], errors, None)
       \<and> calls (fst (make_request_with_retry limited 3 errors)) = 3"
proof -
  have s: "slow 0 = Timeout" "slow (Suc 0) = Timeout" "slow (Suc (Suc 0)) = Success body"
    using assms(1-3) by (simp_all add: numeral_2_eq_2)
  have l: "limited 0 = HTTPError 429" "limited (Suc 0) = HTTPError 429"
    "limited (Suc (Suc 0)) = HTTPError 429" "limited (Suc (Suc (Suc 0))) = HTTPError 429"
    using assms(4) by (simp_all add: numeral_3_eq_3)
  have a: "make_request slow 3 =
           ([Request, Log Warning, Sleep 1, Request, Log Warning, Sleep 2,
             Request, RequestDelay], Some body)"
    using s by (simp add: make_request_def make_request_from.simps emit_def numeral_3_eq_3)
  have b: "make_request limited 3 =
           ([Request, Log Warning, Sleep 60, Request, Log Warning, Sleep 120,
             Request, Log Warning, Sleep 180, Request, Log Error], None)"
    using l by (simp add: make_request_def make_request_from.simps emit_def numeral_3_eq_3)
  have c: "make_request_with_retry slow 3 errors =
           ([Request, Log Warning, Sleep 2, Request, Log Warning, Sleep 4,
             Request, RequestDelay], errors + 2, Some body)"
    using s by (simp add: make_request_with_retry_def make_request_with_retry_from.simps
          emit_def wait_before_retry_def numeral_3_eq_3)
  have d: "make_request_with_retry limited 3 errors =
           ([Request, Log Warning, Sleep 60, Sleep 2, Request, Log Warning, Sleep 60, Sleep 4,
             Request, Log Warning, Sleep 60, Log Error], errors, None)"
    using l by (simp add: make_request_with_retry_def make_request_with_retry_from.simps
          emit_def wait_before_retry_def numeral_3_eq_3)
  show ?thesis
    unfolding a b c d by simp
qed

theorem retry_policy_amended_witness:
  "slow_then_ok 0 = Timeout \<and> slow_then_ok 1 = Timeout \<and> slow_then_ok 2 = Success empty_page
   \<and> always_rate_limited 3 = HTTPError 429
   \<and> snd (make_request slow_then_ok 3) = Some empty_page
   \<and> calls (fst (make_request slow_then_ok 3)) = 3
   \<and> snd (make_request always_rate_limited 3) = None
   \<and> calls (fst (make_request always_rate_limited 3)) = 4
   \<and> calls (fst (make_request_with_retry always_rate_limited 3 0)) = 3"
proof -
  have h1: "slow_then_ok 0 = Timeout" and h2: "slow_then_ok 1 = Timeout"
    and h3: "slow_then_ok 2 = Success empty_page"
    by (simp_all add: slow_then_ok_def)
  have h4: "\<forall>k \<le> 3. always_rate_limited k = HTTPError 429"
    by (simp add: always_rate_limited_def)
  from retry_policy_amended [where slow = slow_then_ok and limited = always_rate_limited
      and body = empty_page and errors = 0, OF h1 h2 h3 h4] h1 h2 h3
  show ?thesis by (simp add: always_rate_limited_def)
qed

section \<open>Properties of the paginators\<close>

lemma traverse_Inr [simp]: "traverse Inr xs = Inr xs"
  by (induction xs) (simp_all add: and_then_def)

lemma ceil_count:
  assumes L: "1 \<le> L"
  shows "n div L + 1 = (if L dvd n then ceil_div n L + 1 else ceil_div n L)"
proof -
  define q where "q = n div L"
  define r where "r = n mod L"
  have n: "n = q * L + r" by (simp add: q_def r_def)
  have rl: "r < L" using L by (simp add: r_def)
  have L0: "L \<noteq> 0" using L by simp
  show ?thesis
  proof (cases "L dvd n")
    case True
    then have "r = 0" by (simp add: r_def)
    with n L have "n + L - 1 = (L - 1) + q * L" by linarith
    then have "(n + L - 1) div L = q + (L - 1) div L"
      by (simp only: div_mult_self1 [OF L0])
    moreover have "(L - 1) div L = 0" using L by simp
    ultimately show ?thesis using True by (simp add: ceil_div_def q_def)
  next
    case False
    then have "1 \<le> r" by (simp add: r_def dvd_eq_mod_eq_0 Suc_leI)
    with n have "n + L - 1 = (r - 1) + (q * L + L)" by linarith
    also have "q * L + L = (q + 1) * L" by simp
    finally have "(n + L - 1) div L = (q + 1) + (r - 1) div L"
      by (simp only: div_mult_self1 [OF L0])
    moreover have "(r - 1) div L = 0" using rl by simp
    ultimately show ?thesis using False by (simp add: ceil_div_def q_def)
  qed
qed

text \<open>One turn of the loop on a page that is served: a short page ends it, a full page
  leads to the next request.\<close>

lemma page_loop_short_page:
  assumes "fetch p = (evs, Some (JObj body))" and "map_of body ''results'' = Some (JArr pg)"
    and "traverse per_record pg = Inr out" and "length pg < L"
  shows "page_loop fetch on_fail per_record L p acc tr = Some (tr @ evs, Inr (acc @ out))"
proof -
  from assms(2) have ne: "body \<noteq> []" by auto
  show ?thesis
  proof (cases "pg = []")
    case True
    with assms ne show ?thesis
      by (subst page_loop.simps) (simp add: dict_get_default_def)
  next
    case False
    have "length out = length pg" using assms(3)
    proof (induction pg arbitrary: out)
      case Nil
      then show ?case by simp
    next
      case (Cons x xs)
      then show ?case
        by (auto simp: and_then_def split: sum.splits)
    qed
    with False assms ne show ?thesis
      by (subst page_loop.simps) (simp add: dict_get_default_def and_then_def)
  qed
qed

lemma traverse_length: "traverse f xs = Inr ys \<Longrightarrow> length ys = length xs"
proof (induction xs arbitrary: ys)
  case Nil
  then show ?case by simp
next
  case (Cons x xs)
  then show ?case by (auto simp: and_then_def split: sum.splits)
qed

lemma page_loop_full_page:
  assumes "fetch p = (evs, Some (JObj body))" and "map_of body ''results'' = Some (JArr pg)"
    and "traverse per_record pg = Inr out" and "L \<le> length pg" and "1 \<le> L"
  shows "page_loop fetch on_fail per_record L p acc tr =
         page_loop fetch on_fail per_record L (p + 1) (acc @ out) (tr @ evs)"
proof -
  from assms(2) have ne: "body \<noteq> []" by auto
  from assms(4,5) have "pg \<noteq> []" by auto
  moreover have "length out = length pg" using assms(3) by (rule traverse_length)
  ultimately show ?thesis using assms ne
    by (subst page_loop.simps) (simp add: dict_get_default_def and_then_def)
qed

lemma page_loop_serves:
  assumes L: "1 \<le> L" and srv: "serves fetch stream L"
  shows "1 \<le> p \<Longrightarrow>
         \<exists>tr'. page_loop fetch on_fail Inr L p acc tr
                  = Some (tr', Inr (acc @ drop ((p - 1) * L) stream))
            \<and> calls tr' = calls tr + length (drop ((p - 1) * L) stream) div L + 1"
proof (induction "length stream - (p - 1) * L" arbitrary: p acc tr rule: less_induct)
  case less
  define d where "d = drop ((p - 1) * L) stream"
  define pg where "pg = take L d"
  have t: "traverse Inr pg = Inr pg" by simp
  from srv less.prems obtain evs body where
    f: "fetch p = (evs, Some (JObj body))" and c: "calls evs = 1"
    and r: "map_of body ''results'' = Some (JArr pg)"
    unfolding serves_def page_of_def d_def pg_def by blast
  show ?case
  proof (cases "length d < L")
    case True
    then have "pg = d" "length pg < L" by (simp_all add: pg_def)
    with page_loop_short_page [where fetch = fetch and p = p and L = L and on_fail = on_fail
        and acc = acc and tr = tr, OF f r t]
    have "page_loop fetch on_fail Inr L p acc tr = Some (tr @ evs, Inr (acc @ d))"
      by (simp only:)
    moreover have "calls (tr @ evs) = calls tr + length d div L + 1"
      using c True by simp
    ultimately show ?thesis unfolding d_def [symmetric] by blast
  next
    case False
    then have len: "L \<le> length d" by simp
    then have lpg: "L \<le> length pg" by (simp add: pg_def)
    note step = page_loop_full_page [where fetch = fetch and p = p and on_fail = on_fail
        and acc = acc and tr = tr, OF f r t lpg L]
    from less.prems obtain q where q: "p = Suc q" by (cases p) auto
    have dd: "drop ((p + 1 - 1) * L) stream = drop L d"
      by (simp add: d_def q add.commute)
    have "length d = length stream - (p - 1) * L" by (simp add: d_def)
    with len L have "length stream - (p + 1 - 1) * L < length stream - (p - 1) * L"
      by (simp add: q)
    from less.hyps [OF this, of "acc @ pg" "tr @ evs"]
    obtain tr' where
      res: "page_loop fetch on_fail Inr L (p + 1) (acc @ pg) (tr @ evs)
            = Some (tr', Inr ((acc @ pg) @ drop L d))"
      and cnt: "calls tr' = calls (tr @ evs) + length (drop L d) div L + 1"
      unfolding dd by auto
    have "pg @ drop L d = d" by (simp add: pg_def)
    then have app: "(acc @ pg) @ drop L d = acc @ d" by simp
    have "length d div L = length (drop L d) div L + 1"
      using len L by (simp add: le_div_geq)
    then have cnt': "calls tr' = calls tr + length d div L + 1"
      using cnt c by simp
    have "page_loop fetch on_fail Inr L p acc tr = Some (tr', Inr (acc @ d))"
      using step res app by (simp only:)
    with cnt' show ?thesis unfolding d_def [symmetric] by blast
  qed
qed

lemma paginate_serves:
  assumes "1 \<le> L" and "serves fetch stream L"
  shows "\<exists>tr. paginate fetch on_fail Inr L = Some (tr, Inr stream)
           \<and> calls tr = (if L dvd length stream then ceil_div (length stream) L + 1
                         else ceil_div (length stream) L)"
proof -
  from page_loop_serves [OF assms, of 1 on_fail "[]" "[]"]
  obtain tr where "paginate fetch on_fail Inr L = Some (tr, Inr stream)"
    and "calls tr = length stream div L + 1"
    by (auto simp: paginate_def)
  with ceil_count [OF assms(1), of "length stream"] show ?thesis by auto
qed

lemma make_request_first_success:
  "get 0 = Success body \<Longrightarrow> make_request get retries = ([Request, RequestDelay], Some body)"
  by (simp add: make_request_def make_request_from.simps)

lemma make_request_once_success:
  "get 0 = Success body \<Longrightarrow> make_request_once get = ([Request, RequestDelay], Some body)"
  by simp

lemma answers_serves_make_request:
  assumes "answers requests stream L"
  shows "serves (\<lambda>page. make_request (requests page) retries) stream L"
  unfolding serves_def
proof (intro allI impI)
  fix p :: nat
  assume "1 \<le> p"
  with assms obtain body where b: "requests p 0 = Success (JObj body)"
    and r: "map_of body ''results'' = Some (JArr (page_of stream L p))"
    unfolding answers_def by blast
  have "make_request (requests p) retries = ([Request, RequestDelay], Some (JObj body))"
    using b by (rule make_request_first_success)
  moreover have "calls [Request, RequestDelay] = 1" by simp
  ultimately show "\<exists>evs body. make_request (requests p) retries = (evs, Some (JObj body))
      \<and> calls evs = 1 \<and> map_of body ''results'' = Some (JArr (page_of stream L p))"
    using r by blast
qed

lemma answers_serves_make_request_once:
  assumes "answers requests stream L"
  shows "serves (\<lambda>page. make_request_once (requests page)) stream L"
  unfolding serves_def
proof (intro allI impI)
  fix p :: nat
  assume "1 \<le> p"
  with assms obtain body where b: "requests p 0 = Success (JObj body)"
    and r: "map_of body ''results'' = Some (JArr (page_of stream L p))"
    unfolding answers_def by blast
  have "make_request_once (requests p) = ([Request, RequestDelay], Some (JObj body))"
    using b by (rule make_request_once_success)
  moreover have "calls [Request, RequestDelay] = 1" by simp
  ultimately show "\<exists>evs body. make_request_once (requests p) = (evs, Some (JObj body))
      \<and> calls evs = 1 \<and> map_of body ''results'' = Some (JArr (page_of stream L p))"
    using r by blast
qed

text \<open>
  C4. For every page size \<open>L \<ge> 1\<close> and every stream served consistently, the paginator
  loop returns the whole stream after \<open>ceil(n/L)\<close> requests when the last page is short
  and \<open>ceil(n/L) + 1\<close> requests when \<open>n\<close> is a multiple of \<open>L\<close> (the last one answered by
  an empty page); in both cases it ends. The location paginators of
  \<^verbatim>\<open>run_full_ingestion.py\<close> and \<^verbatim>\<open>ingest_openaq_data.py\<close> are the loop at \<open>L = 1000\<close>.
\<close>

theorem paginator_request_count:
  assumes "1 \<le> L" and "serves fetch stream L"
    and "answers (\<lambda>page. net Locations (locations_params country_id page 1000)) locations 1000"
  shows "(\<exists>tr. paginate fetch on_fail Inr L = Some (tr, Inr stream)
            \<and> calls tr = (if L dvd length stream then ceil_div (length stream) L + 1
                          else ceil_div (length stream) L))
       \<and> (\<exists>tr. get_all_locations_for_country net country_id = Some (tr, Inr locations)
            \<and> calls tr = (if 1000 dvd length locations then ceil_div (length locations) 1000 + 1
                          else ceil_div (length locations) 1000))
       \<and> (\<exists>tr. get_all_locations net country_id = Some (tr, Inr locations)
            \<and> calls tr = (if 1000 dvd length locations then ceil_div (length locations) 1000 + 1
                          else ceil_div (length locations) 1000))"
proof -
  have k: "(1::nat) \<le> 1000" by simp
  note a = paginate_serves [OF assms(1,2), of on_fail]
  note b = paginate_serves [OF k answers_serves_make_request [OF assms(3), of 3],
      of "[Log Warning]"]
  note c = paginate_serves [OF k answers_serves_make_request_once [OF assms(3)], of "[]"]
  from a b c show ?thesis
    unfolding get_all_locations_for_country_def get_all_locations_def by blast
qed

lemma serves_serve_pages: "serves (serve_pages stream L) stream L"
  by (simp add: serves_def serve_pages_def)

lemma answers_page_server:
  "answers (\<lambda>page. page_server stream L Locations (locations_params c page L)) stream L"
  by (simp add: answers_def page_server_def locations_params_def requested_page_def
        dict_get_def)

theorem paginator_request_count_witness:
  "(\<exists>tr. paginate (serve_pages four_records 2) [] Inr 2 = Some (tr, Inr four_records)
       \<and> calls tr = 3)
   \<and> (\<exists>tr. get_all_locations_for_country (page_server four_records 1000) 145
                = Some (tr, Inr four_records) \<and> calls tr = 1)"
proof -
  have h1: "(1::nat) \<le> 2" by simp
  have h2: "serves (serve_pages four_records 2) four_records 2"
    by (rule serves_serve_pages)
  have h3: "answers (\<lambda>page. page_server four_records 1000 Locations
                (locations_params 145 page 1000)) four_records 1000"
    by (rule answers_page_server)
  have l: "length four_records = 4" by (simp add: four_records_def)
  from paginator_request_count [where L = 2 and fetch = "serve_pages four_records 2"
      and stream = four_records and net = "page_server four_records 1000"
      and country_id = 145 and locations = four_records and on_fail = "[]", OF h1 h2 h3]
  show ?thesis by (simp add: l ceil_div_def)
qed

text \<open>
  C10, as stated, fails: the skip is not silent everywhere. The measurement paginator of
  \<^verbatim>\<open>nepal_ingestion.py\<close>, given a sensor record without an id, logs a warning before it
  returns the empty list.
\<close>

theorem nepal_skip_logged_counterexample:
  "get_sensor_measurements_nepal first_page_only unnumbered_sensor ''2024-01-01T00:00:00Z''
       ''2025-09-22T00:00:00Z'' = Some ([Log Warning], Inr [])
   \<and> [Log Warning] \<noteq> []"
  by (simp add: get_sensor_measurements_nepal_def unnumbered_sensor_def dict_get_def)

text \<open>
  C10, amended. A sensor record whose \<^verbatim>\<open>sensor_id\<close> is missing, \<^verbatim>\<open>None\<close>, \<open>0\<close> or falsy
  in any other way is skipped with no request and an empty list of measurements. The skip
  is silent in \<^verbatim>\<open>run_full_ingestion.py\<close>, where \<^verbatim>\<open>get_sensor_measurements_single\<close>
  returns the empty list without any request or log line, and in
  \<^verbatim>\<open>ingest_openaq_data.py\<close>, whose loop goes on to the next sensor with its state
  unchanged and without calling the paginator; in \<^verbatim>\<open>nepal_ingestion.py\<close> the paginator
  returns the empty list after one logged warning and no request.
\<close>

theorem falsy_sensor_id_skipped:
  assumes "map_of sensor_info ''sensor_id'' \<in> {None, Some JNull, Some (JInt 0)}
           \<or> \<not> truthy (dict_get sensor_info ''sensor_id'')"
  shows "get_sensor_measurements_single net sensor_info date_from now = Some ([], Inr [])
       \<and> ingest_sensors fetch_measurements writable i (JObj sensor_info # rest) c
           = ingest_sensors fetch_measurements writable (i + 1) rest c
       \<and> get_sensor_measurements_nepal net sensor_info date_from now
           = Some ([Log Warning], Inr [])
       \<and> calls [Log Warning] = 0"
proof -
  from assms have "\<not> truthy (dict_get sensor_info ''sensor_id'')"
    by (auto simp: dict_get_def)
  then show ?thesis
    by (simp add: get_sensor_measurements_single_def get_sensor_measurements_nepal_def)
qed

theorem falsy_sensor_id_skipped_witness:
  "get_sensor_measurements_single first_page_only unnumbered_sensor ''2024-01-01T00:00:00Z''
       ''2025-09-22T00:00:00Z'' = Some ([], Inr [])
   \<and> get_sensor_measurements_single first_page_only nameless_sensor ''2024-01-01T00:00:00Z''
       ''2025-09-22T00:00:00Z'' = Some ([], Inr [])
   \<and> get_sensor_measurements_nepal first_page_only unnumbered_sensor ''2024-01-01T00:00:00Z''
       ''2025-09-22T00:00:00Z'' = Some ([Log Warning], Inr [])"
proof -
  have h1: "map_of unnumbered_sensor ''sensor_id'' \<in> {None, Some JNull, Some (JInt 0)}
           \<or> \<not> truthy (dict_get unnumbered_sensor ''sensor_id'')"
    by (simp add: unnumbered_sensor_def)
  have h2: "map_of nameless_sensor ''sensor_id'' \<in> {None, Some JNull, Some (JInt 0)}
           \<or> \<not> truthy (dict_get nameless_sensor ''sensor_id'')"
    by (simp add: nameless_sensor_def)
  from falsy_sensor_id_skipped [OF h1] falsy_sensor_id_skipped [OF h2]
  show ?thesis by simp
qed


lemma traverse_replicate:
  "f x = Inr y \<Longrightarrow> traverse f (replicate n x) = Inr (replicate n y)"
  by (induction n) (simp_all add: and_then_def)

lemma concat_replicate_Nil [simp]: "concat (replicate n []) = []"
  by (induction n) simp_all


































lemma requested_page_params [simp]:
  "requested_page (locations_params c p L) = p"
  "requested_page (measurements_params date_from date_to p L) = p"
  by (simp_all add: requested_page_def locations_params_def measurements_params_def dict_get_def)







section \<open>Properties of the batch buffer and of the runs\<close>


lemma station_sensors:
  "extract_sensors_from_locations_full [station n] = Inr (replicate n (JObj station_sensor))"
proof -
  have "sensor_info_full_of (station n) (JObj [(''id'', JInt 9)]) = Inr (JObj station_sensor)"
    by (simp add: sensor_info_full_of_def station_def station_sensor_def and_then_def
          dict_get_def dict_get_default_def)
  then have "traverse (sensor_info_full_of (station n)) (replicate n (JObj [(''id'', JInt 9)]))
      = Inr (replicate n (JObj station_sensor))"
    by (rule traverse_replicate)
  moreover have "get_attr_default (station n) ''sensors'' (JArr [])
      = Inr (JArr (replicate n (JObj [(''id'', JInt 9)])))"
    by (simp add: station_def dict_get_default_def)
  ultimately have "sensors_of_location sensor_info_full_of (station n)
      = Inr (replicate n (JObj station_sensor))"
    by (simp add: sensors_of_location_def and_then_def)
  then show ?thesis
    by (simp add: extract_sensors_from_locations_full_def and_then_def)
qed


lemma phase1_one_station:
  "collect_countries (one_station n) [(''Nepal'', 145)] [] [] initial_run
     = Some (Normal, [station n], replicate n (JObj station_sensor),
         initial_run\<lparr>events := [Request, RequestDelay],
           stats := (stats initial_run)\<lparr>total_locations := 1, total_sensors := n,
             countries_processed := 1\<rparr>\<rparr>)"
  by (simp add: one_station_def station_sensors initial_run_def)

lemma run_ingestion_phases:
  assumes "collect_countries locate target_countries [] [] initial_run
             = Some (Normal, all_locations, all_sensors, r0)"
  shows "run_ingestion locate fetch_measurements writable signal batch_size target_countries
     = map_option (finish writable)
         (collect_measurements fetch_measurements writable signal batch_size 0 all_sensors
            (saved writable all_sensors AllSensors (saved writable all_locations AllLocations r0)))"
  using assms by (simp add: run_ingestion_def)

text \<open>The three example runs, evaluated.\<close>

lemma bulk_run_value:
  "\<exists>r. bulk_run = Some (Normal, r)
     \<and> parquet_files r = [(AllLocations, [station 1]), (AllSensors, [JObj station_sensor]),
             (MeasurementsBatch 0, replicate 75001 reading)]
     \<and> current_batch r = []"
  unfolding bulk_run_def run_ingestion_phases [OF phase1_one_station]
  apply (subst collect_measurements.simps)
  apply (simp add: bulk_reading_def no_signal_def)
  apply (subst collect_measurements.simps)
  apply (simp add: save_when_large_def saved_def save_batch_to_parquet_def
       always_writable_def initial_run_def create_ingestion_summary_def save_final_batch_def
       Let_def)
  done

lemma unwritable_run_value:
  "\<exists>r. unwritable_run = Some (Normal, r)
   \<and> parquet_files r = []
   \<and> current_batch r = []
   \<and> summary_file r
       = Some \<lparr>status = ''completed'', summary_locations = 1, summary_sensors = 1,
           summary_measurements = 75001, summary_batch_count = 1,
           measurement_files = [MeasurementsBatch 0]\<rparr>
   \<and> events r
       = [Request, RequestDelay, Log Error, Log Error, Request, RequestDelay, Log Error]"
  unfolding unwritable_run_def run_ingestion_phases [OF phase1_one_station]
  apply (subst collect_measurements.simps)
  apply (simp add: bulk_reading_def no_signal_def)
  apply (subst collect_measurements.simps)
  apply (simp add: save_when_large_def saved_def save_batch_to_parquet_def
       never_writable_def initial_run_def create_ingestion_summary_def save_final_batch_def
       Let_def)
  done


text \<open>
  C1, as stated, fails: when one sensor batch brings 75,001 records and the threshold is
  75,000, the one flush of the run writes all 75,001 records and no record remains in
  the buffer.
\<close>

theorem whole_buffer_flushed_counterexample:
  "map_option (parquet_files \<circ> snd) bulk_run
     = Some [(AllLocations, [station 1]), (AllSensors, [JObj station_sensor]),
             (MeasurementsBatch 0, replicate 75001 reading)]
   \<and> map_option (current_batch \<circ> snd) bulk_run = Some []
   \<and> length (replicate 75001 reading) = 75001"
  using bulk_run_value by auto

text \<open>
  C1, amended. When the buffer has reached or passed the threshold after the
  measurements of a step were appended, the flusher writes the whole buffer, every
  record of it, to one file and leaves the buffer empty; this holds for the loop of
  \<^verbatim>\<open>run_full_ingestion.py\<close> with its configured threshold and, each on its own disk,
  for the loop of \<^verbatim>\<open>ingest_openaq_data.py\<close> with its threshold of 100000.
\<close>

theorem flush_writes_whole_buffer:
  assumes "batch_size \<le> length (current_batch r)" and "current_batch r \<noteq> []"
    and "writable (MeasurementsBatch (batch_count (stats r))) (current_batch r)"
    and "100000 \<le> length (all_measurements c)"
    and "storage (MeasurementsBatch i) (all_measurements c)"
  shows "parquet_files (save_when_large writable batch_size r)
           = parquet_files r @ [(MeasurementsBatch (batch_count (stats r)), current_batch r)]
       \<and> current_batch (save_when_large writable batch_size r) = []
       \<and> batch_count (stats (save_when_large writable batch_size r)) = batch_count (stats r) + 1
       \<and> written (periodic_save storage i c)
           = written c @ [(MeasurementsBatch i, all_measurements c)]
       \<and> all_measurements (periodic_save storage i c) = []"
proof -
  have full: "parquet_files (save_when_large writable batch_size r)
           = parquet_files r @ [(MeasurementsBatch (batch_count (stats r)), current_batch r)]
       \<and> current_batch (save_when_large writable batch_size r) = []
       \<and> batch_count (stats (save_when_large writable batch_size r)) = batch_count (stats r) + 1"
    using assms(1-3)
    by (simp add: save_when_large_def saved_def save_batch_to_parquet_def Let_def)
  from assms(4) have "all_measurements c \<noteq> []" by auto
  with assms(4,5) have "written (periodic_save storage i c)
           = written c @ [(MeasurementsBatch i, all_measurements c)]
       \<and> all_measurements (periodic_save storage i c) = []"
    by (simp add: periodic_save_def save_def save_batch_to_parquet_def)
  with full show ?thesis by simp
qed

theorem flush_writes_whole_buffer_witness:
  "parquet_files (save_when_large small_files_only 75000 full_buffer)
     = [(MeasurementsBatch 0, replicate 75001 reading)]
   \<and> current_batch (save_when_large small_files_only 75000 full_buffer) = []
   \<and> written (periodic_save always_writable 1 full_collector)
       = [(MeasurementsBatch 1, replicate 100000 reading)]
   \<and> all_measurements (periodic_save always_writable 1 full_collector) = []"
proof -
  have h1: "75000 \<le> length (current_batch full_buffer)"
    and h2: "current_batch full_buffer \<noteq> []"
    and h3: "small_files_only (MeasurementsBatch (batch_count (stats full_buffer)))
               (current_batch full_buffer)"
    and h4: "100000 \<le> length (all_measurements full_collector)"
    and h5: "always_writable (MeasurementsBatch 1) (all_measurements full_collector)"
    by (simp_all add: full_buffer_def full_collector_def always_writable_def
          small_files_only_def initial_run_def)
  from flush_writes_whole_buffer [where writable = small_files_only
      and storage = always_writable, OF h1 h2 h3 h4 h5]
  show ?thesis
    by (simp add: full_buffer_def full_collector_def initial_run_def)
qed

text \<open>
  C2, as stated, fails: on a disk that refuses every write, the run that collected
  75,001 records ends with no file written and an empty buffer; the records are gone,
  while the summary reports the batch file and the records as collected.
\<close>

theorem failed_flush_discards_counterexample:
  "map_option (parquet_files \<circ> snd) unwritable_run = Some []
   \<and> map_option (current_batch \<circ> snd) unwritable_run = Some []
   \<and> map_option (summary_file \<circ> snd) unwritable_run
       = Some (Some \<lparr>status = ''completed'', summary_locations = 1, summary_sensors = 1,
           summary_measurements = 75001, summary_batch_count = 1,
           measurement_files = [MeasurementsBatch 0]\<rparr>)"
  using unwritable_run_value by auto

text \<open>
  C2, amended. If a flush fails, the error is logged and the batch is not saved; the
  save function leaves the list it was given alone, but it reports nothing, and its
  caller empties the buffer whatever happened: in \<^verbatim>\<open>run_full_ingestion.py\<close> (which
  also records the file name and counts the batch) and, each on its own disk, in
  \<^verbatim>\<open>nepal_ingestion.py\<close> (which counts the batch too) the records of a failed flush
  are dropped, not kept for a later attempt.
\<close>

theorem flush_failure_amended:
  assumes "data \<noteq> []" and "\<not> medium filename data"
    and "batch_size \<le> length (current_batch r)" and "current_batch r \<noteq> []"
    and "\<not> writable (MeasurementsBatch (batch_count (stats r))) (current_batch r)"
    and "threshold \<le> length (all_measurements c)" and "all_measurements c \<noteq> []"
    and "\<not> storage (MeasurementsBatch (batches c + 1)) (all_measurements c)"
  shows "save_batch_to_parquet medium data filename (files, tr) = (files, tr @ [Log Error])
       \<and> parquet_files (save_when_large writable batch_size r) = parquet_files r
       \<and> events (save_when_large writable batch_size r) = events r @ [Log Error]
       \<and> current_batch (save_when_large writable batch_size r) = []
       \<and> measurement_batches (save_when_large writable batch_size r)
           = measurement_batches r @ [MeasurementsBatch (batch_count (stats r))]
       \<and> batch_count (stats (save_when_large writable batch_size r)) = batch_count (stats r) + 1
       \<and> written (save_in_batches storage threshold c) = written c
       \<and> trace (save_in_batches storage threshold c) = trace c @ [Log Error]
       \<and> all_measurements (save_in_batches storage threshold c) = []
       \<and> batches (save_in_batches storage threshold c) = batches c + 1"
proof -
  have a: "save_batch_to_parquet medium data filename (files, tr) = (files, tr @ [Log Error])"
    using assms(1,2) by (simp add: save_batch_to_parquet_def)
  have b: "parquet_files (save_when_large writable batch_size r) = parquet_files r
       \<and> events (save_when_large writable batch_size r) = events r @ [Log Error]
       \<and> current_batch (save_when_large writable batch_size r) = []
       \<and> measurement_batches (save_when_large writable batch_size r)
           = measurement_batches r @ [MeasurementsBatch (batch_count (stats r))]
       \<and> batch_count (stats (save_when_large writable batch_size r)) = batch_count (stats r) + 1"
    using assms(3-5)
    by (simp add: save_when_large_def saved_def save_batch_to_parquet_def Let_def)
  have c: "written (save_in_batches storage threshold c) = written c
       \<and> trace (save_in_batches storage threshold c) = trace c @ [Log Error]
       \<and> all_measurements (save_in_batches storage threshold c) = []
       \<and> batches (save_in_batches storage threshold c) = batches c + 1"
    using assms(6-8)
    by (simp add: save_in_batches_def save_def save_batch_to_parquet_def Let_def)
  from a b c show ?thesis by simp
qed

theorem flush_failure_amended_witness:
  "save_batch_to_parquet never_writable [reading] MeasurementsFinal ([], [])
     = ([], [Log Error])
   \<and> parquet_files (save_when_large first_batch_fails 75000 full_buffer) = []
   \<and> events (save_when_large first_batch_fails 75000 full_buffer) = [Log Error]
   \<and> current_batch (save_when_large first_batch_fails 75000 full_buffer) = []
   \<and> batch_count (stats (save_when_large first_batch_fails 75000 full_buffer)) = 1
   \<and> written (save_in_batches never_writable 50000 full_collector) = []
   \<and> all_measurements (save_in_batches never_writable 50000 full_collector) = []
   \<and> batches (save_in_batches never_writable 50000 full_collector) = 1"
proof -
  have h1: "[reading] \<noteq> []" and h2: "\<not> never_writable MeasurementsFinal [reading]"
    and h3: "75000 \<le> length (current_batch full_buffer)"
    and h4: "current_batch full_buffer \<noteq> []"
    and h5: "\<not> first_batch_fails (MeasurementsBatch (batch_count (stats full_buffer)))
               (current_batch full_buffer)"
    and h6: "50000 \<le> length (all_measurements full_collector)"
    and h7: "all_measurements full_collector \<noteq> []"
    and h8: "\<not> never_writable (MeasurementsBatch (batches full_collector + 1))
               (all_measurements full_collector)"
    by (simp_all add: full_buffer_def full_collector_def never_writable_def
          first_batch_fails_def initial_run_def)
  from flush_failure_amended [where medium = never_writable and writable = first_batch_fails
      and storage = never_writable and files = "[]" and tr = "[]",
      OF h1 h2 h3 h4 h5 h6 h7 h8]
  show ?thesis
    by (simp add: full_buffer_def full_collector_def initial_run_def)
qed




section \<open>Properties of the flatteners\<close>

lemma map_of_dict_set: "map_of (dict_set d k v) = (map_of d)(k \<mapsto> v)"
  by (induction d) auto

lemma map_of_dict_update: "map_of (dict_update d other) = map_of d ++ map_of (rev other)"
proof (induction other arbitrary: d)
  case Nil
  then show ?case by simp
next
  case (Cons kv other)
  obtain k v where kv: "kv = (k, v)" by (cases kv)
  show ?case
    by (rule ext) (simp add: kv Cons.IH map_of_dict_set map_add_def split: option.splits)
qed

text \<open>Reading a key after \<^verbatim>\<open>update\<close>: the last value assigned to it, or the old one.\<close>

lemma dict_get_dict_update:
  "dict_get (dict_update d other) k
     = (case map_of (rev other) k of None \<Rightarrow> dict_get d k | Some v \<Rightarrow> v)"
  by (simp add: dict_get_def map_of_dict_update map_add_def split: option.splits)

lemma nested_get_ok:
  "mapping_or_missing d k1 \<Longrightarrow> \<exists>v. nested_get d k1 k2 = Inr v"
  by (auto simp: mapping_or_missing_def nested_get_def dict_get_default_def
        split: option.splits json.splits)

lemma sensor_context_full_ok:
  assumes "mapping_or_missing info ''country''" and "mapping_or_missing info ''coordinates''"
    and "mapping_or_missing info ''provider''"
  shows "\<exists>columns. sensor_context_full sensor_id now info = Inr columns"
proof -
  from assms obtain a b c d e where
    "nested_get info ''country'' ''name'' = Inr a"
    "nested_get info ''country'' ''code'' = Inr b"
    "nested_get info ''coordinates'' ''latitude'' = Inr c"
    "nested_get info ''coordinates'' ''longitude'' = Inr d"
    "nested_get info ''provider'' ''name'' = Inr e"
    using nested_get_ok by meson
  then show ?thesis by (simp add: sensor_context_full_def and_then_def)
qed

text \<open>A nested field that is present but holds \<^verbatim>\<open>None\<close> makes the statement raise: the
  default of \<^verbatim>\<open>get\<close> only stands in for a missing key.\<close>

lemma null_country_raises:
  "updated (sensor_context_full sensor_id now [(''country'', JNull)]) (JObj raw)
     = Inl AttributeError"
  by (simp add: sensor_context_full_def nested_get_def dict_get_default_def and_then_def)

text \<open>
  C6, as stated, fails: injecting the sensor context changes the raw measurement record
  itself. The object that held one column before the statement holds twelve after it.
\<close>

theorem raw_record_mutated_counterexample:
  "object_after (update_in_place (sensor_context_full (JInt 9) ''2025-09-22T00:00:00Z'')
      two_objects 0 1) 0
     = Some (JObj [(''value'', JInt 7), (''sensor_id'', JInt 9), (''sensor_name'', JNull),
                   (''location_id'', JInt 1), (''location_name'', JNull),
                   (''country_name'', JNull), (''country_code'', JNull),
                   (''coordinates_lat'', JNull), (''coordinates_lon'', JNull),
                   (''timezone'', JNull), (''provider_name'', JNull),
                   (''ingestion_timestamp'', JStr ''2025-09-22T00:00:00Z'')])
   \<and> two_objects 0 = Some (JObj [(''value'', JInt 7)])"
  by (simp add: object_after_def update_in_place_def two_objects_def reading_def
        station_sensor_def sensor_context_full_def nested_get_def and_then_def
        dict_get_def dict_get_default_def)

text \<open>
  C6, amended. Flattening a measurement is an update in place: when the nested fields
  \<^verbatim>\<open>country\<close>, \<^verbatim>\<open>coordinates\<close> and \<^verbatim>\<open>provider\<close> of the sensor record are missing or are
  dictionaries, it does not raise, the raw measurement object afterwards holds its old
  columns updated with the context columns, and the parent context and every other object
  are unchanged. Extracting a sensor record from a location and a sensor dictionary
  returns a new dictionary and does not raise, whatever fields are missing.
\<close>

theorem flatten_effects_amended:
  assumes "h measurement = Some (JObj raw)" and "h sensor_info = Some (JObj info)"
    and "measurement \<noteq> sensor_info"
    and "mapping_or_missing info ''country''" and "mapping_or_missing info ''coordinates''"
    and "mapping_or_missing info ''provider''"
  shows "(\<exists>columns. sensor_context_full sensor_id now info = Inr columns
            \<and> update_in_place (sensor_context_full sensor_id now) h measurement sensor_info
                = Inr (h(measurement \<mapsto> JObj (dict_update raw columns)))
            \<and> object_after
                (update_in_place (sensor_context_full sensor_id now) h measurement sensor_info)
                sensor_info = h sensor_info)
       \<and> (\<exists>d. sensor_info_of (JObj location) (JObj sensor) = Inr (JObj d))
       \<and> (\<exists>d. sensor_info_full_of (JObj location) (JObj sensor) = Inr (JObj d))"
proof -
  from sensor_context_full_ok [OF assms(4-6)] obtain columns where
    c: "sensor_context_full sensor_id now info = Inr columns" by blast
  have u: "update_in_place (sensor_context_full sensor_id now) h measurement sensor_info
      = Inr (h(measurement \<mapsto> JObj (dict_update raw columns)))"
    using assms(1,2) c by (simp add: update_in_place_def and_then_def)
  have "object_after (update_in_place (sensor_context_full sensor_id now) h measurement
      sensor_info) sensor_info = h sensor_info"
    using assms(3) by (simp add: u object_after_def)
  moreover have "\<exists>d. sensor_info_of (JObj location) (JObj sensor) = Inr (JObj d)"
    by (simp add: sensor_info_of_def and_then_def)
  moreover have "\<exists>d. sensor_info_full_of (JObj location) (JObj sensor) = Inr (JObj d)"
    by (simp add: sensor_info_full_of_def and_then_def)
  ultimately show ?thesis using c u by blast
qed

theorem flatten_effects_amended_witness:
  "object_after (update_in_place (sensor_context_full (JInt 9) ''2025-09-22T00:00:00Z'')
      two_objects 0 1) 1 = Some (JObj station_sensor)
   \<and> (\<exists>d. sensor_info_of (JObj []) (JObj []) = Inr (JObj d))
   \<and> (\<exists>d. sensor_info_full_of (JObj []) (JObj []) = Inr (JObj d))"
proof -
  have h1: "two_objects 0 = Some (JObj [(''value'', JInt 7)])"
    and h2: "two_objects 1 = Some (JObj station_sensor)"
    and h3: "(0::nat) \<noteq> 1"
    and h4: "mapping_or_missing station_sensor ''country''"
    and h5: "mapping_or_missing station_sensor ''coordinates''"
    and h6: "mapping_or_missing station_sensor ''provider''"
    by (simp_all add: two_objects_def reading_def station_sensor_def mapping_or_missing_def)
  from flatten_effects_amended [OF h1 h2 h3 h4 h5 h6, of "JInt 9" "''2025-09-22T00:00:00Z''"
      "[]" "[]"] h2
  show ?thesis by auto
qed

text \<open>
  C9, as stated, fails: the measurement flattening of \<^verbatim>\<open>ingest_openaq_data.py\<close> injects
  no coordinates, so two parents that differ in their coordinates only give the same
  flat record.
\<close>

theorem coordinates_not_injected_counterexample:
  "updated (sensor_context (JInt 9) kathmandu) reading
     = updated (sensor_context (JInt 9) pokhara) reading
   \<and> dict_get kathmandu ''coordinates'' \<noteq> dict_get pokhara ''coordinates''"
  by (simp add: sensor_context_def kathmandu_def pokhara_def reading_def nested_get_def
        and_then_def dict_get_def dict_get_default_def)

text \<open>
  C9, amended. What is injected is read back unchanged. A sensor record extracted from a
  location carries the location's id, name and coordinates (an empty dictionary when the
  location has none). A measurement flattened by \<^verbatim>\<open>run_full_ingestion.py\<close> carries the
  sensor's id and name, the location's id and name and the latitude and longitude of the
  parent. A measurement flattened by \<^verbatim>\<open>ingest_openaq_data.py\<close> carries the sensor's id
  and name and the location's id and name, and no coordinates.
\<close>

theorem context_round_trip_amended:
  assumes "sensor_info_of (JObj location) (JObj sensor) = Inr (JObj info)"
    and "updated (sensor_context_full sensor_id now parent) (JObj raw) = Inr (JObj flat)"
    and "updated (sensor_context sensor_id' parent') (JObj raw') = Inr (JObj flat')"
  shows "dict_get info ''location_id'' = dict_get location ''id''
       \<and> dict_get info ''location_name'' = dict_get location ''name''
       \<and> dict_get info ''coordinates'' = dict_get_default location ''coordinates'' (JObj [])
       \<and> dict_get flat ''sensor_id'' = sensor_id
       \<and> dict_get flat ''sensor_name'' = dict_get parent ''sensor_name''
       \<and> dict_get flat ''location_id'' = dict_get parent ''location_id''
       \<and> dict_get flat ''location_name'' = dict_get parent ''location_name''
       \<and> Inr (dict_get flat ''coordinates_lat'') = nested_get parent ''coordinates'' ''latitude''
       \<and> Inr (dict_get flat ''coordinates_lon'') = nested_get parent ''coordinates'' ''longitude''
       \<and> dict_get flat' ''sensor_id'' = sensor_id'
       \<and> dict_get flat' ''sensor_name'' = dict_get parent' ''sensor_name''
       \<and> dict_get flat' ''location_id'' = dict_get parent' ''location_id''
       \<and> dict_get flat' ''location_name'' = dict_get parent' ''location_name''"
proof -
  have a: "dict_get info ''location_id'' = dict_get location ''id''
       \<and> dict_get info ''location_name'' = dict_get location ''name''
       \<and> dict_get info ''coordinates'' = dict_get_default location ''coordinates'' (JObj [])"
    using assms(1) by (auto simp: sensor_info_of_def and_then_def dict_get_def)
  from assms(2) obtain columns where
    cf: "sensor_context_full sensor_id now parent = Inr columns"
    and f: "flat = dict_update raw columns"
    by (auto simp: and_then_def split: sum.splits)
  from cf obtain a1 a2 lat lon a3 where
    lat: "nested_get parent ''coordinates'' ''latitude'' = Inr lat"
    and lon: "nested_get parent ''coordinates'' ''longitude'' = Inr lon"
    and cols: "columns = [(''sensor_id'', sensor_id),
            (''sensor_name'', dict_get parent ''sensor_name''),
            (''location_id'', dict_get parent ''location_id''),
            (''location_name'', dict_get parent ''location_name''),
            (''country_name'', a1), (''country_code'', a2),
            (''coordinates_lat'', lat), (''coordinates_lon'', lon),
            (''timezone'', dict_get parent ''timezone''),
            (''provider_name'', a3),
            (''ingestion_timestamp'', JStr now)]"
    by (auto simp: sensor_context_full_def and_then_def split: sum.splits)
  have b: "dict_get flat ''sensor_id'' = sensor_id
       \<and> dict_get flat ''sensor_name'' = dict_get parent ''sensor_name''
       \<and> dict_get flat ''location_id'' = dict_get parent ''location_id''
       \<and> dict_get flat ''location_name'' = dict_get parent ''location_name''
       \<and> Inr (dict_get flat ''coordinates_lat'') = nested_get parent ''coordinates'' ''latitude''
       \<and> Inr (dict_get flat ''coordinates_lon'') = nested_get parent ''coordinates'' ''longitude''"
    unfolding f dict_get_dict_update cols lat lon by simp
  from assms(3) obtain columns' where
    cf': "sensor_context sensor_id' parent' = Inr columns'"
    and f': "flat' = dict_update raw' columns'"
    by (auto simp: and_then_def split: sum.splits)
  from cf' obtain b1 b2 where
    cols': "columns' = [(''sensor_id'', sensor_id'),
            (''sensor_name'', dict_get parent' ''sensor_name''),
            (''location_id'', dict_get parent' ''location_id''),
            (''location_name'', dict_get parent' ''location_name''),
            (''country_name'', b1), (''country_code'', b2)]"
    by (auto simp: sensor_context_def and_then_def split: sum.splits)
  have c: "dict_get flat' ''sensor_id'' = sensor_id'
       \<and> dict_get flat' ''sensor_name'' = dict_get parent' ''sensor_name''
       \<and> dict_get flat' ''location_id'' = dict_get parent' ''location_id''
       \<and> dict_get flat' ''location_name'' = dict_get parent' ''location_name''"
    unfolding f' dict_get_dict_update cols' by simp
  from a b c show ?thesis by simp
qed

theorem context_round_trip_amended_witness:
  "(\<exists>info. sensor_info_of (JObj ratnapark) (JObj [(''id'', JInt 9)]) = Inr (JObj info)
       \<and> dict_get info ''location_id'' = JInt 1
       \<and> dict_get info ''location_name'' = JStr ''Ratnapark''
       \<and> dict_get info ''coordinates''
            = JObj [(''latitude'', JFloat (277 / 10)), (''longitude'', JFloat (853 / 10))])
   \<and> (\<exists>flat. updated (sensor_context_full (JInt 9) ''2025-09-22T00:00:00Z'' kathmandu) reading
                 = Inr (JObj flat)
       \<and> dict_get flat ''location_id'' = JInt 1
       \<and> dict_get flat ''coordinates_lat'' = JFloat (277 / 10)
       \<and> dict_get flat ''coordinates_lon'' = JFloat (853 / 10))
   \<and> (\<exists>flat'. updated (sensor_context (JInt 11) pokhara) reading = Inr (JObj flat')
       \<and> dict_get flat' ''sensor_id'' = JInt 11
       \<and> dict_get flat' ''location_id'' = dict_get pokhara ''location_id'')"
proof -
  obtain info where h1: "sensor_info_of (JObj ratnapark) (JObj [(''id'', JInt 9)])
      = Inr (JObj info)"
    by (simp add: sensor_info_of_def and_then_def)
  obtain flat where h2: "updated (sensor_context_full (JInt 9) ''2025-09-22T00:00:00Z''
      kathmandu) (JObj [(''value'', JInt 7)]) = Inr (JObj flat)"
    by (simp add: sensor_context_full_def nested_get_def and_then_def kathmandu_def
          dict_get_default_def)
  obtain flat' where h3: "updated (sensor_context (JInt 11) pokhara)
      (JObj [(''value'', JInt 7)]) = Inr (JObj flat')"
    by (simp add: sensor_context_def nested_get_def and_then_def pokhara_def
          dict_get_default_def)
  have lat: "nested_get kathmandu ''coordinates'' ''latitude'' = Inr (JFloat (277 / 10))"
    and lon: "nested_get kathmandu ''coordinates'' ''longitude'' = Inr (JFloat (853 / 10))"
    by (simp_all add: nested_get_def kathmandu_def dict_get_default_def dict_get_def)
  from context_round_trip_amended [OF h1 h2 h3] h1 h2 h3 lat lon
  show ?thesis
    by (simp add: reading_def ratnapark_def kathmandu_def dict_get_def dict_get_default_def)
qed

section \<open>Further observations on the full-scale wrapper\<close>

text \<open>
  In \<^verbatim>\<open>FullScaleOpenAQIngester.make_request\<close> the \<^verbatim>\<open>HTTPError\<close> handler ends, for a
  status that is neither 429 nor a 5xx, with the error log line and no \<^verbatim>\<open>break\<close>: the
  loop goes on, and an HTTP 404 is asked for again at once until the attempts are used up.
  An unparseable body never reaches the clause that would \<^verbatim>\<open>break\<close>: it is retried with
  the waits of a connection failure.
\<close>

lemma malformed_body_retried:
  "make_request always_malformed 3
     = ([Request, RequestDelay, Log Warning, Sleep 1,
         Request, RequestDelay, Log Warning, Sleep 2,
         Request, RequestDelay, Log Warning, Sleep 4,
         Request, RequestDelay, Log Error], None)"
  by (simp add: make_request_def make_request_from.simps always_malformed_def emit_def
        numeral_3_eq_3)

lemma client_error_falls_through:
  "make_request always_not_found 3
     = ([Request, Log Error, Request, Log Error, Request, Log Error, Request, Log Error], None)"
  by (simp add: make_request_def make_request_from.simps always_not_found_def emit_def
        numeral_3_eq_3)

end
